theory Spec2Isabelle
  imports Main "HOL-Library.AList" "HOL-Library.Word"
begin

section \<open>Python values, exceptions and effects\<close>

text \<open>
  The values that reach the token constructors: \<open>None\<close>, booleans, unbounded
  integers, \<open>str\<close> (a sequence of Unicode code points) and \<open>bytes\<close>.
\<close>

type_synonym bytes = "8 word list"

datatype pyval =
    PyNone
  | PyBool bool
  | PyInt int
  | PyStr "nat list"
  | PyBytes bytes

text \<open>
  An identifier collection (\<open>account['account_id']\<close>, and the \<open>identifiers\<close>
  argument of \<open>authenticate_account\<close>): the code reads only its
  \<open>primary_identifier\<close>.
\<close>

record identifier_collection =
  primary_identifier :: "string option"

text \<open>
  Exceptions are values. The builtin ones carry their message; the two that the
  TOTP setter re-raises also carry the credentials whose \<open>str()\<close> is the second
  element of the message tuple. \<open>IncorrectCredentialsException\<close> carries its
  \<open>failed_attempts\<close> attribute (\<open>None\<close> when the instance has none, as after
  \<open>raise IncorrectCredentialsException\<close>). \<open>OtherException\<close> is any other
  exception class a realm may raise.
\<close>

datatype exn =
    AttributeError string
  | KeyError string
  | IndexError string
  | ValueError string
  | TypeError string "pyval option"
  | AssertionError string "pyval option"
  | UnicodeEncodeError
  | RecursionError
  | InvalidAuthenticationSequenceException string
  | AdditionalAuthenticationRequired identifier_collection
  | AccountException string
  | LockedAccountException string
  | IncorrectCredentialsException "nat list option"
  | AuthenticationException string "exn option"
  | MultiRealmAuthenticationException "(string \<times> exn) list"
  | OtherException string

text \<open>
  Modelled from the spec: the exception classes come from the package root, which
  declares their hierarchy. The error kinds are ``each distinguishable by the
  caller'': an \<open>except\<close> clause for one of them catches that kind only.
  \<open>isinstance(exc, AuthenticationException)\<close> holds for the authentication kinds
  of the error taxonomy (the realm contract: a realm ``may raise
  IncorrectCredentials, LockedAccount, AccountException, or other authentication
  errors''), and for no builtin exception.
\<close>

fun isinstance_AuthenticationException :: "exn \<Rightarrow> bool" where
  "isinstance_AuthenticationException (AuthenticationException m inner) = True"
| "isinstance_AuthenticationException (MultiRealmAuthenticationException errs) = True"
| "isinstance_AuthenticationException (AccountException m) = True"
| "isinstance_AuthenticationException (LockedAccountException m) = True"
| "isinstance_AuthenticationException (IncorrectCredentialsException fa) = True"
| "isinstance_AuthenticationException (InvalidAuthenticationSequenceException m) = True"
| "isinstance_AuthenticationException (AdditionalAuthenticationRequired ids) = True"
| "isinstance_AuthenticationException e = False"

text \<open>The apostrophe of the interpreter's messages.\<close>

definition apostrophe :: string where
  "apostrophe = [CHR 0x27]"

section \<open>Tokens (authc.py)\<close>

datatype token_class = UsernamePasswordToken | TOTPToken | OtherToken string

fun class_name :: "token_class \<Rightarrow> string" where
  "class_name UsernamePasswordToken = ''UsernamePasswordToken''"
| "class_name TOTPToken = ''TOTPToken''"
| "class_name (OtherToken n) = n"

record token_info_entry =
  tier :: int
  cred_type :: string

text \<open>
  An attribute that an object may not have: \<open>TOTPToken.__init__\<close> assigns no
  \<open>identifier\<close>, and the value of one that is there may be \<open>None\<close>.
\<close>

datatype 'a attribute = Absent | Present 'a

text \<open>
  A token object. \<open>token_identifier\<close> is the attribute \<open>identifier\<close>.
  \<open>credentials\<close> is the attribute \<open>_credentials\<close>, \<open>None\<close> while no setter has
  assigned it. \<open>token_info\<close> is \<open>None\<close> until \<open>authenticate_account\<close> attaches
  it.
\<close>

record token =
  token_class :: token_class
  token_identifier :: "string option attribute"
  credentials :: "pyval option"
  host :: "string option"
  is_remember_me :: bool
  token_info :: "token_info_entry option"

text \<open>\<open>bytes(credentials, 'utf-8')\<close>: lone surrogates cannot be encoded.\<close>

definition utf8_encode_char :: "nat \<Rightarrow> exn + bytes" where
  "utf8_encode_char c =
     (if c < 0x80 then Inr [of_nat c]
      else if c < 0x800 then Inr [of_nat (0xC0 + c div 64), of_nat (0x80 + c mod 64)]
      else if 0xD800 \<le> c \<and> c \<le> 0xDFFF then Inl UnicodeEncodeError
      else if c < 0x10000 then
        Inr [of_nat (0xE0 + c div 4096), of_nat (0x80 + (c div 64) mod 64),
             of_nat (0x80 + c mod 64)]
      else if c \<le> 0x10FFFF then
        Inr [of_nat (0xF0 + c div 262144), of_nat (0x80 + (c div 4096) mod 64),
             of_nat (0x80 + (c div 64) mod 64), of_nat (0x80 + c mod 64)]
      else Inl UnicodeEncodeError)"

fun utf8_encode :: "nat list \<Rightarrow> exn + bytes" where
  "utf8_encode [] = Inr []"
| "utf8_encode (c # cs) =
     (case utf8_encode_char c of
        Inl e \<Rightarrow> Inl e
      | Inr bs \<Rightarrow> (case utf8_encode cs of Inl e \<Rightarrow> Inl e | Inr rest \<Rightarrow> Inr (bs @ rest)))"

text \<open>
  The \<open>identifier\<close> setter of \<open>UsernamePasswordToken\<close>: \<open>if not identifier: raise
  ValueError\<close>. The username is a \<open>str\<close> or \<open>None\<close>.
\<close>

definition UsernamePasswordToken_identifier_setter ::
  "string option \<Rightarrow> exn + string option" where
  "UsernamePasswordToken_identifier_setter identifier' =
     (case identifier' of
        None \<Rightarrow> Inl (ValueError ''Username must be defined'')
      | Some u \<Rightarrow> if u = [] then Inl (ValueError ''Username must be defined'')
                  else Inr (Some u))"

text \<open>
  The \<open>credentials\<close> setter of \<open>UsernamePasswordToken\<close>. The source has two
  separate \<open>if\<close> statements, and the \<open>else\<close> belongs to the second:
  \<^verbatim>\<open>
    if isinstance(credentials, bytes):
        self._credentials = credentials
    if isinstance(credentials, str):
        self._credentials = bytes(credentials, 'utf-8')
    else:
        raise ValueError('Password must be a str or bytes')
  \<close>
  The first argument is the current value of \<open>_credentials\<close> (\<open>None\<close> when unset).
\<close>

definition isinstance_bytes :: "pyval \<Rightarrow> bool" where
  "isinstance_bytes v = (case v of PyBytes bs \<Rightarrow> True | _ \<Rightarrow> False)"

definition UsernamePasswordToken_credentials_setter ::
  "pyval option \<Rightarrow> pyval \<Rightarrow> exn option \<times> pyval option" where
  "UsernamePasswordToken_credentials_setter cur credentials' =
     (let cur1 = (if isinstance_bytes credentials' then Some credentials' else cur)
      in case credentials' of
           PyStr s \<Rightarrow>
             (case utf8_encode s of
                Inl e \<Rightarrow> (Some e, cur1)
              | Inr bs \<Rightarrow> (None, Some (PyBytes bs)))
         | _ \<Rightarrow> (Some (ValueError ''Password must be a str or bytes''), cur1))"

text \<open>
  \<open>UsernamePasswordToken.__init__(username, password, remember_me, host)\<close>: the
  four assignments in order; the first two go through the setters, and an
  exception raised by a setter leaves the constructor.
\<close>

definition UsernamePasswordToken_init ::
  "string option \<Rightarrow> pyval \<Rightarrow> bool \<Rightarrow> string option \<Rightarrow> exn + token" where
  "UsernamePasswordToken_init username password remember_me host' =
     (case UsernamePasswordToken_identifier_setter username of
        Inl e \<Rightarrow> Inl e
      | Inr ident \<Rightarrow>
          (case UsernamePasswordToken_credentials_setter None password of
             (Some e, creds) \<Rightarrow> Inl e
           | (None, creds) \<Rightarrow>
               Inr \<lparr>token_class = UsernamePasswordToken, token_identifier = Present ident,
                    credentials = creds, host = host', is_remember_me = remember_me,
                    token_info = None\<rparr>))"

text \<open>
  The \<open>credentials\<close> setter of \<open>TOTPToken\<close>:
  \<^verbatim>\<open>
    try:
        assert 99999 < credentials < 1000000
        self._credentials = credentials
    except (TypeError, AssertionError) as exc:
        msg = 'TOTPToken must be a 6-digit int. Got: ', str(credentials)
        raise exc.__class__(msg)
  \<close>
  The comparison with an \<open>int\<close> raises \<open>TypeError\<close> for \<open>None\<close>, \<open>str\<close> and
  \<open>bytes\<close>; a \<open>bool\<close> compares as 0 or 1, below the lower bound.
\<close>

definition TOTPToken_credentials_setter :: "pyval \<Rightarrow> exn + pyval" where
  "TOTPToken_credentials_setter credentials' =
     (case credentials' of
        PyInt n \<Rightarrow>
          if 99999 < n \<and> n < 1000000 then Inr credentials'
          else Inl (AssertionError ''TOTPToken must be a 6-digit int. Got: '' (Some credentials'))
      | PyBool b \<Rightarrow>
          Inl (AssertionError ''TOTPToken must be a 6-digit int. Got: '' (Some credentials'))
      | _ \<Rightarrow> Inl (TypeError ''TOTPToken must be a 6-digit int. Got: '' (Some credentials')))"

definition TOTPToken_init :: "pyval \<Rightarrow> bool \<Rightarrow> exn + token" where
  "TOTPToken_init totp_token remember_me =
     (case TOTPToken_credentials_setter totp_token of
        Inl e \<Rightarrow> Inl e
      | Inr creds \<Rightarrow>
          Inr \<lparr>token_class = TOTPToken, token_identifier = Absent, credentials = Some creds,
               host = None, is_remember_me = remember_me, token_info = None\<rparr>)"

text \<open>The process-wide \<open>token_info\<close> table; a class that is not a key raises \<open>KeyError\<close>.\<close>

fun token_info_table :: "token_class \<Rightarrow> token_info_entry option" where
  "token_info_table UsernamePasswordToken = Some \<lparr>tier = 1, cred_type = ''password''\<rparr>"
| "token_info_table TOTPToken = Some \<lparr>tier = 2, cred_type = ''totp_key''\<rparr>"
| "token_info_table (OtherToken n) = None"

section \<open>Accounts, realms and attempts\<close>

text \<open>
  An account is a mapping with the keys \<open>account_id\<close> and \<open>authc_info\<close>;
  \<open>authc_info\<close> maps a credential type to a mapping with \<open>credential\<close> and,
  possibly, \<open>failed_attempts\<close> (read with \<open>.get('failed_attempts', [])\<close>).
  A dict is an association list read with \<open>map_of\<close>; its \<open>len\<close> counts keys.
  An account has both keys, so it is never empty and always truthy: the tests
  \<open>if (account)\<close> and \<open>if (account is not None)\<close> agree on it.
\<close>

record authc_entry =
  credential :: pyval
  failed_attempts :: "nat list option"

record account =
  account_id :: identifier_collection
  authc_info :: "(string \<times> authc_entry) list"

definition dict_len :: "('k \<times> 'v) list \<Rightarrow> nat" where
  "dict_len d = length (remdups (map fst d))"

text \<open>
  A realm is an external collaborator: what it answers to \<open>supports(token)\<close> and
  \<open>authenticate_account(token)\<close> (an account, \<open>None\<close>, or an exception) is a
  field; \<open>has_lock_account\<close> is \<open>hasattr(realm, 'lock_account')\<close> and
  \<open>is_authenticating_realm\<close> is
  \<open>isinstance(realm, realm_abcs.AuthenticatingRealm)\<close>.
\<close>

record realm =
  name :: string
  supports :: "token \<Rightarrow> bool"
  supported_authc_tokens :: "token_class list"
  authenticate_account :: "token \<Rightarrow> exn + account option"
  has_lock_account :: bool
  is_authenticating_realm :: bool

text \<open>
  The attempt object a strategy receives: anything with the attributes
  \<open>authentication_token\<close> and \<open>realms\<close>, the latter in iteration order.
\<close>

record authentication_attempt =
  authentication_token :: token
  attempt_realms :: "realm list"

section \<open>DefaultAuthenticationAttempt (strategy.py)\<close>

text \<open>
  Attribute assignment on an instance of a class: when the class defines the name
  as a property, the property's setter runs, and a property without a setter
  raises \<open>AttributeError\<close>; otherwise the value goes into the instance's
  \<open>__dict__\<close>.
\<close>

datatype attr_value = TokenValue token | RealmsValue "realm list"

type_synonym instance_dict = "(string \<times> attr_value) list"

datatype class_attribute =
    Property "(instance_dict \<Rightarrow> attr_value \<Rightarrow> exn + instance_dict) option"
  | Function

definition object_setattr ::
  "(string \<times> class_attribute) list \<Rightarrow> instance_dict \<Rightarrow> string \<Rightarrow> attr_value
     \<Rightarrow> exn + instance_dict" where
  "object_setattr cls self attr v =
     (case map_of cls attr of
        Some (Property fset) \<Rightarrow>
          (case fset of
             None \<Rightarrow> Inl (AttributeError (''can'' @ apostrophe @ ''t set attribute''))
           | Some f \<Rightarrow> f self v)
      | _ \<Rightarrow> Inr (AList.update attr v self))"

text \<open>
  The class body: \<open>__init__\<close> and two \<open>@property\<close> getters, neither with a
  setter. A name defined in the class body is found before any the interface
  it derives from may define.
\<close>

definition DefaultAuthenticationAttempt_class :: "(string \<times> class_attribute) list" where
  "DefaultAuthenticationAttempt_class =
     [(''__init__'', Function),
      (''authentication_token'', Property None),
      (''realms'', Property None)]"

text \<open>
  \<open>__init__(self, authc_token, realms)\<close>: two attribute assignments on the new,
  empty instance.
\<close>

definition DefaultAuthenticationAttempt_init ::
  "token \<Rightarrow> realm list \<Rightarrow> exn + instance_dict" where
  "DefaultAuthenticationAttempt_init authc_token realms' =
     (case object_setattr DefaultAuthenticationAttempt_class []
             ''authentication_token'' (TokenValue authc_token) of
        Inl e \<Rightarrow> Inl e
      | Inr self \<Rightarrow>
          object_setattr DefaultAuthenticationAttempt_class self
            ''realms'' (RealmsValue realms'))"

text \<open>
  The getters read the property they define (\<open>return self.authentication_token\<close>),
  so each call calls itself. The first argument is the number of frames left
  before the interpreter's recursion limit.
\<close>

fun DefaultAuthenticationAttempt_authentication_token ::
  "nat \<Rightarrow> instance_dict \<Rightarrow> exn + attr_value" where
  "DefaultAuthenticationAttempt_authentication_token 0 self = Inl RecursionError"
| "DefaultAuthenticationAttempt_authentication_token (Suc depth) self =
     DefaultAuthenticationAttempt_authentication_token depth self"

fun DefaultAuthenticationAttempt_realms ::
  "nat \<Rightarrow> instance_dict \<Rightarrow> exn + attr_value" where
  "DefaultAuthenticationAttempt_realms 0 self = Inl RecursionError"
| "DefaultAuthenticationAttempt_realms (Suc depth) self =
     DefaultAuthenticationAttempt_realms depth self"

section \<open>Combination strategies (strategy.py)\<close>

text \<open>
  Modelled from the spec: \<open>DefaultCompositeAccount\<close> is imported from the package
  and not part of these sources. A composite account ``accumulates per-realm
  sub-accounts keyed by realm name'': a dict from realm name to account, empty
  when created, into which \<open>append_realm_account\<close> stores one entry. The object
  is truthy.
\<close>

type_synonym composite_account = "(string \<times> account) list"

definition DefaultCompositeAccount :: composite_account where
  "DefaultCompositeAccount = []"

definition append_realm_account ::
  "composite_account \<Rightarrow> string \<Rightarrow> account \<Rightarrow> composite_account" where
  "append_realm_account composite realm_name acct = AList.update realm_name acct composite"

text \<open>What a strategy returns when it returns an object.\<close>

datatype strategy_account = Account account | CompositeAccount composite_account

subsection \<open>AllRealmsSuccessfulStrategy\<close>

text \<open>
  The loop state is \<open>(first_account, composite_account)\<close>; \<open>first_account\<close> is
  kept with \<open>first_account_realm_name\<close>, which the source assigns together with
  it. An exception of a realm leaves the loop and the method.
\<close>

fun AllRealmsSuccessful_loop ::
  "token \<Rightarrow> realm list \<Rightarrow> (string \<times> account) option \<times> composite_account option
     \<Rightarrow> exn + (string \<times> account) option \<times> composite_account option" where
  "AllRealmsSuccessful_loop tok [] st = Inr st"
| "AllRealmsSuccessful_loop tok (r # rs) (first_account, composite_account) =
     (if supports r tok then
        (case authenticate_account r tok of
           Inl ex \<Rightarrow> Inl ex
         | Inr None \<Rightarrow> AllRealmsSuccessful_loop tok rs (first_account, composite_account)
         | Inr (Some acct) \<Rightarrow>
             (case first_account of
                None \<Rightarrow>
                  AllRealmsSuccessful_loop tok rs (Some (name r, acct), composite_account)
              | Some (first_account_realm_name, first) \<Rightarrow>
                  (let composite1 =
                     (case composite_account of
                        None \<Rightarrow>
                          append_realm_account DefaultCompositeAccount
                            first_account_realm_name first
                      | Some c \<Rightarrow> c)
                   in AllRealmsSuccessful_loop tok rs
                        (first_account,
                         Some (append_realm_account composite1 (name r) acct)))))
      else AllRealmsSuccessful_loop tok rs (first_account, composite_account))"

definition AllRealmsSuccessfulStrategy_execute ::
  "authentication_attempt \<Rightarrow> exn + strategy_account option" where
  "AllRealmsSuccessfulStrategy_execute authc_attempt =
     (case AllRealmsSuccessful_loop (authentication_token authc_attempt)
             (attempt_realms authc_attempt) (None, None) of
        Inl ex \<Rightarrow> Inl ex
      | Inr (first_account, composite_account) \<Rightarrow>
          (case composite_account of
             Some c \<Rightarrow> Inr (Some (CompositeAccount c))
           | None \<Rightarrow>
               (case first_account of
                  None \<Rightarrow> Inr None
                | Some (n, first) \<Rightarrow> Inr (Some (Account first)))))"

subsection \<open>AtLeastOneRealmSuccessfulStrategy\<close>

text \<open>
  The strategy object. The class has no \<open>__init__\<close> and no class attribute
  \<open>realm_errors\<close>; its base class, the interface, is not part of these sources,
  so the attribute that \<open>execute\<close> reads as \<open>self.realm_errors\<close> is a field,
  \<open>None\<close> when the object has no such attribute.
\<close>

record strategy_object =
  realm_errors_attribute :: "(string \<times> exn) list option"

definition AtLeastOneRealmSuccessfulStrategy_new :: strategy_object where
  "AtLeastOneRealmSuccessfulStrategy_new = \<lparr>realm_errors_attribute = None\<rparr>"

text \<open>
  One iteration. The state is \<open>(realm_errors, account, first_account,
  composite_account)\<close>; \<open>account\<close> is assigned only when the realm returns, and the
  test \<open>if (account is not None)\<close> follows the \<open>try\<close> statement. The realms
  are given a shallow copy of the attempt's token, the same value.
\<close>

fun AtLeastOneRealmSuccessful_step ::
  "token \<Rightarrow>
   (string \<times> exn) list \<times> account option \<times> account option \<times> composite_account option
     \<Rightarrow> realm \<Rightarrow>
   (string \<times> exn) list \<times> account option \<times> account option \<times> composite_account option" where
  "AtLeastOneRealmSuccessful_step authc_token
       (realm_errors, account', first_account, composite_account) r =
     (if supports r authc_token then
        (let realm_name = name r;
             (account1, realm_errors1) =
               (case authenticate_account r authc_token of
                  Inl ex \<Rightarrow> (account', AList.update realm_name ex realm_errors)
                | Inr a \<Rightarrow> (a, realm_errors))
         in case account1 of
              None \<Rightarrow> (realm_errors1, account1, first_account, composite_account)
            | Some acct \<Rightarrow>
                (case first_account of
                   None \<Rightarrow> (realm_errors1, account1, Some acct, composite_account)
                 | Some first \<Rightarrow>
                     (realm_errors1, account1, first_account,
                      Some (append_realm_account
                              (case composite_account of
                                 None \<Rightarrow> DefaultCompositeAccount
                               | Some c \<Rightarrow> c)
                              realm_name acct))))
      else (realm_errors, account', first_account, composite_account))"

definition AtLeastOneRealmSuccessful_loop ::
  "token \<Rightarrow> realm list \<Rightarrow>
   (string \<times> exn) list \<times> account option \<times> account option \<times> composite_account option" where
  "AtLeastOneRealmSuccessful_loop authc_token rs =
     foldl (AtLeastOneRealmSuccessful_step authc_token) ([], None, None, None) rs"

definition AtLeastOneRealmSuccessfulStrategy_execute ::
  "strategy_object \<Rightarrow> authentication_attempt \<Rightarrow> exn + strategy_account option" where
  "AtLeastOneRealmSuccessfulStrategy_execute self authc_attempt =
     (case AtLeastOneRealmSuccessful_loop (authentication_token authc_attempt)
             (attempt_realms authc_attempt) of
        (realm_errors, account', first_account, composite_account) \<Rightarrow>
          (case composite_account of
             Some c \<Rightarrow> Inr (Some (CompositeAccount c))
           | None \<Rightarrow>
               (case first_account of
                  Some first \<Rightarrow> Inr (Some (Account first))
                | None \<Rightarrow>
                    (case realm_errors_attribute self of
                       None \<Rightarrow>
                         Inl (AttributeError
                               (apostrophe @ ''AtLeastOneRealmSuccessfulStrategy'' @ apostrophe
                                @ '' object has no attribute '' @ apostrophe
                                @ ''realm_errors'' @ apostrophe))
                     | Some self_realm_errors \<Rightarrow>
                         if self_realm_errors \<noteq> []
                         then Inl (MultiRealmAuthenticationException realm_errors)
                         else Inr None))))"

subsection \<open>FirstRealmSuccessfulStrategy\<close>

text \<open>
  The loop either returns from the method with an account or runs to its end
  with the errors it collected. The second component of the result lists the
  names of the realms whose \<open>authenticate_account\<close> was called, in order.
\<close>

datatype loop_exit = Returned account | Exhausted "(string \<times> exn) list"

fun FirstRealmSuccessful_loop ::
  "token \<Rightarrow> realm list \<Rightarrow> (string \<times> exn) list \<Rightarrow> loop_exit \<times> string list" where
  "FirstRealmSuccessful_loop authc_token [] realm_errors = (Exhausted realm_errors, [])"
| "FirstRealmSuccessful_loop authc_token (r # rs) realm_errors =
     (if supports r authc_token then
        (case authenticate_account r authc_token of
           Inl ex \<Rightarrow>
             (case FirstRealmSuccessful_loop authc_token rs
                     (AList.update (name r) ex realm_errors) of
                (res, called) \<Rightarrow> (res, name r # called))
         | Inr None \<Rightarrow>
             (case FirstRealmSuccessful_loop authc_token rs realm_errors of
                (res, called) \<Rightarrow> (res, name r # called))
         | Inr (Some acct) \<Rightarrow> (Returned acct, [name r]))
      else FirstRealmSuccessful_loop authc_token rs realm_errors)"

definition FirstRealmSuccessfulStrategy_execute ::
  "authentication_attempt \<Rightarrow> (exn + account option) \<times> string list" where
  "FirstRealmSuccessfulStrategy_execute authc_attempt =
     (case FirstRealmSuccessful_loop (authentication_token authc_attempt)
             (attempt_realms authc_attempt) [] of
        (Returned acct, called) \<Rightarrow> (Inr (Some acct), called)
      | (Exhausted realm_errors, called) \<Rightarrow>
          (if realm_errors \<noteq> [] then
             (if length realm_errors = 1 then
                (let exc = snd (hd realm_errors)
                 in if isinstance_AuthenticationException exc then Inl exc
                    else Inl (AuthenticationException
                                ''Unable to authenticate realm account.'' (Some exc)))
              else Inl (MultiRealmAuthenticationException realm_errors))
           else Inr None,
           called))"

section \<open>DefaultAuthenticator (authc.py)\<close>

text \<open>
  The collaborators whose methods return nothing (the event bus, the MFA
  challenger, the locking realm's \<open>lock_account\<close>) are present or absent; a call
  on a present one returns normally and is recorded, in order, as an event.
  A call on an absent one (\<open>None\<close>, or an attribute never set) raises
  \<open>AttributeError\<close>.
\<close>

datatype event_bus = EventBus

datatype mfa_challenger = MFAChallenger

datatype event =
    SendMessage string "string option"
  | Subscribe string
  | IsSubscribed string
  | LockAccount string "string option"
  | SendChallenge "string option"

text \<open>
  What \<open>AuthenticationSettings(settings)\<close> exposes: the lock threshold and
  whether a challenger factory is configured.
\<close>

record authentication_settings =
  account_lock_threshold :: "int option"
  mfa_challenger_configured :: bool

record authenticator =
  authc_settings :: authentication_settings
  authentication_strategy :: "authentication_attempt \<Rightarrow> exn + account option"
  mfa_challenger :: "mfa_challenger option"
  realms :: "realm list option"
  token_realm_resolver :: "(token_class \<times> realm list) list option"
  locking_realm :: "realm option"
  locking_limit :: "int option"
  event_bus :: "event_bus option"

text \<open>
  A computation of the authenticator ends in an exception or a value, and has
  made the calls listed beside it. \<open>and_then\<close> runs the second computation after
  the first unless the first raised.
\<close>

type_synonym 'a outcome = "(exn + 'a) \<times> event list"

definition and_then :: "'a outcome \<Rightarrow> ('a \<Rightarrow> 'b outcome) \<Rightarrow> 'b outcome" where
  "and_then m f =
     (case m of
        (Inl e, evs) \<Rightarrow> (Inl e, evs)
      | (Inr x, evs) \<Rightarrow> (case f x of (res, evs') \<Rightarrow> (res, evs @ evs')))"

definition raise :: "exn \<Rightarrow> 'a outcome" where
  "raise e = (Inl e, [])"

definition return :: "'a \<Rightarrow> 'a outcome" where
  "return x = (Inr x, [])"

definition NoneType_has_no_attribute :: "string \<Rightarrow> exn" where
  "NoneType_has_no_attribute attr =
     AttributeError (apostrophe @ ''NoneType'' @ apostrophe @ '' object has no attribute ''
                     @ apostrophe @ attr @ apostrophe)"

definition NoneType_not_subscriptable :: exn where
  "NoneType_not_subscriptable =
     TypeError (apostrophe @ ''NoneType'' @ apostrophe @ '' object is not subscriptable'') None"

text \<open>\<open>str(x)\<close> of a \<open>str\<close> or \<open>None\<close>.\<close>

definition str_of :: "string option \<Rightarrow> string" where
  "str_of x = (case x of None \<Rightarrow> ''None'' | Some s \<Rightarrow> s)"

text \<open>
  The two ways the code reads a token's identifier. \<open>authc_token.identifier\<close>
  raises \<open>AttributeError\<close> on a token without the attribute (a
  \<open>UsernamePasswordToken\<close> keeps it as \<open>_identifier\<close> behind a property);
  \<open>getattr(authc_token, 'identifier', None)\<close> yields \<open>None\<close> there.
\<close>

definition has_no_identifier :: "token \<Rightarrow> exn" where
  "has_no_identifier authc_token =
     AttributeError
       (apostrophe @ class_name (token_class authc_token) @ apostrophe
        @ '' object has no attribute '' @ apostrophe
        @ (if token_class authc_token = UsernamePasswordToken then ''_identifier''
           else ''identifier'')
        @ apostrophe)"

definition read_identifier :: "token \<Rightarrow> string option outcome" where
  "read_identifier authc_token =
     (case token_identifier authc_token of
        Absent \<Rightarrow> raise (has_no_identifier authc_token)
      | Present v \<Rightarrow> return v)"

definition getattr_identifier :: "token \<Rightarrow> string option" where
  "getattr_identifier authc_token =
     (case token_identifier authc_token of Absent \<Rightarrow> None | Present v \<Rightarrow> v)"

definition DefaultAuthenticator_init ::
  "authentication_settings \<Rightarrow> (authentication_attempt \<Rightarrow> exn + account option)
     \<Rightarrow> authenticator" where
  "DefaultAuthenticator_init settings strategy =
     \<lparr>authc_settings = settings,
      authentication_strategy = strategy,
      mfa_challenger = (if mfa_challenger_configured settings then Some MFAChallenger else None),
      realms = None,
      token_realm_resolver = None,
      locking_realm = None,
      locking_limit = None,
      event_bus = None\<rparr>"

text \<open>
  \<open>token_resolver = defaultdict(list)\<close>: reading a missing key yields a new empty
  list and never raises \<open>KeyError\<close>.
\<close>

definition defaultdict_getitem :: "('k \<times> 'v list) list \<Rightarrow> 'k \<Rightarrow> exn + 'v list" where
  "defaultdict_getitem d k = Inr (case map_of d k of None \<Rightarrow> [] | Some vs \<Rightarrow> vs)"

definition defaultdict_append :: "('k \<times> 'v list) list \<Rightarrow> 'k \<Rightarrow> 'v \<Rightarrow> ('k \<times> 'v list) list" where
  "defaultdict_append d k v =
     AList.update k ((case map_of d k of None \<Rightarrow> [] | Some vs \<Rightarrow> vs) @ [v]) d"

definition init_token_resolution :: "realm list \<Rightarrow> (token_class \<times> realm list) list" where
  "init_token_resolution rs =
     foldl (\<lambda>token_resolver r.
              if is_authenticating_realm r
              then foldl (\<lambda>d token_class'. defaultdict_append d token_class' r)
                     token_resolver (supported_authc_tokens r)
              else token_resolver)
       [] rs"

definition locate_locking_realm :: "realm list \<Rightarrow> realm option" where
  "locate_locking_realm rs = find has_lock_account rs"

definition init_locking :: "authenticator \<Rightarrow> exn + authenticator" where
  "init_locking a =
     (case account_lock_threshold (authc_settings a) of
        None \<Rightarrow> Inr a
      | Some limit \<Rightarrow>
          if limit = 0 then Inr a
          else (case realms a of
                  None \<Rightarrow>
                    Inl (TypeError (apostrophe @ ''NoneType'' @ apostrophe
                                    @ '' object is not iterable'') None)
                | Some rs \<Rightarrow>
                    Inr (a\<lparr>locking_realm := locate_locking_realm rs,
                           locking_limit := Some limit\<rparr>)))"

text \<open>
  \<open>register_cache_clear_listener\<close>: four calls on the bus, or nothing (a debug
  log line) when the bus is absent.
\<close>

definition register_cache_clear_listener :: "authenticator \<Rightarrow> unit outcome" where
  "register_cache_clear_listener a =
     (case event_bus a of
        None \<Rightarrow> return ()
      | Some bus \<Rightarrow>
          (Inr (), [Subscribe ''SESSION.EXPIRE'', IsSubscribed ''SESSION.EXPIRE'',
                    Subscribe ''SESSION.STOP'', IsSubscribed ''SESSION.STOP'']))"

definition init_realms :: "authenticator \<Rightarrow> realm list \<Rightarrow> authenticator outcome" where
  "init_realms a rs =
     (let a1 = a\<lparr>realms := Some (filter is_authenticating_realm rs)\<rparr>
      in and_then (register_cache_clear_listener a1) (\<lambda>u.
           (let a2 = a1\<lparr>token_realm_resolver :=
                         Some (init_token_resolution (filter is_authenticating_realm rs))\<rparr>
            in (init_locking a2, []))))"

definition authenticate_single_realm_account ::
  "authenticator \<Rightarrow> realm \<Rightarrow> token \<Rightarrow> exn + account option" where
  "authenticate_single_realm_account a r authc_token = authenticate_account r authc_token"

definition authenticate_multi_realm_account ::
  "authenticator \<Rightarrow> realm list \<Rightarrow> token \<Rightarrow> exn + account option" where
  "authenticate_multi_realm_account a rs authc_token =
     authentication_strategy a
       \<lparr>authentication_token = authc_token, attempt_realms = rs\<rparr>"

text \<open>
  \<^verbatim>\<open>
    try:
        self.event_bus.sendMessage(topic, identifier=identifier)
    except AttributeError:
        msg = "Could not publish {} event".format(topic)
        raise AttributeError(msg)
  \<close>
\<close>

definition notify_event :: "authenticator \<Rightarrow> string option \<Rightarrow> string \<Rightarrow> unit outcome" where
  "notify_event a ident topic =
     (case event_bus a of
        None \<Rightarrow> raise (AttributeError (''Could not publish '' @ topic @ '' event''))
      | Some bus \<Rightarrow> (Inr (), [SendMessage topic ident]))"

text \<open>
  \<^verbatim>\<open>
    if self.locking_limit and len(failed_attempts) > self.locking_limit:
        msg = ('Authentication attempts breached threshold.  Account'
               ' is now locked for: ' + str(authc_token.identifier))
        self.locking_realm.lock_account(authc_token.identifier)
        self.notify_event(authc_token.identifier, 'AUTHENTICATION.ACCOUNT_LOCKED')
        raise LockedAccountException(msg)
  \<close>
  \<open>limit_breached\<close> is the condition of the \<open>if\<close> (a threshold of \<open>None\<close> or 0
  is falsy); \<open>lock_account\<close> is the call on \<open>self.locking_realm\<close>. Building
  \<open>msg\<close> is the first read of \<open>authc_token.identifier\<close>, before any call.
\<close>

definition limit_breached :: "authenticator \<Rightarrow> nat list \<Rightarrow> bool" where
  "limit_breached a failed_attempts' =
     (case locking_limit a of
        None \<Rightarrow> False
      | Some limit \<Rightarrow> limit \<noteq> 0 \<and> int (length failed_attempts') > limit)"

definition lock_account :: "realm option \<Rightarrow> string option \<Rightarrow> unit outcome" where
  "lock_account lr ident =
     (case lr of
        None \<Rightarrow> raise (NoneType_has_no_attribute ''lock_account'')
      | Some r \<Rightarrow>
          if has_lock_account r then (Inr (), [LockAccount (name r) ident])
          else raise (AttributeError (''object has no attribute '' @ apostrophe
                                      @ ''lock_account'' @ apostrophe)))"

definition validate_locked :: "authenticator \<Rightarrow> token \<Rightarrow> nat list \<Rightarrow> unit outcome" where
  "validate_locked a authc_token failed_attempts' =
     (if limit_breached a failed_attempts' then
        and_then (read_identifier authc_token) (\<lambda>ident.
          (let msg = ''Authentication attempts breached threshold.  Account''
                     @ '' is now locked for: '' @ str_of ident
           in and_then (lock_account (locking_realm a) ident) (\<lambda>u.
              and_then (notify_event a ident ''AUTHENTICATION.ACCOUNT_LOCKED'') (\<lambda>u.
              raise (LockedAccountException msg)))))
      else return ())"

text \<open>
  \<open>do_authenticate_account\<close>, in two parts. \<open>dispatch\<close> is the lookup of the
  candidate realms and the call of the realm or of the strategy (from the \<open>try\<close>
  to the assignment of \<open>account\<close>). The \<open>except KeyError\<close> around the resolver
  lookup is kept as the source has it. The branch is chosen by
  \<open>len(self.realms)\<close>; the single realm called is \<open>realms[0]\<close> of the candidate
  list, and the strategy is given all realms. The rest reads the failed attempts,
  runs the lock check and then the MFA gate. Subscripting \<open>None\<close> (a \<open>None\<close>
  account, or fields that \<open>init_realms\<close> has not set) raises \<open>TypeError\<close>.
\<close>

definition dispatch :: "authenticator \<Rightarrow> token \<Rightarrow> exn + account option" where
  "dispatch a authc_token =
     (case token_realm_resolver a of
        None \<Rightarrow> Inl NoneType_not_subscriptable
      | Some resolver \<Rightarrow>
          (case defaultdict_getitem resolver (token_class authc_token) of
             Inl e \<Rightarrow>
               (case e of
                  KeyError k \<Rightarrow>
                    Inl (KeyError (''Unsupported Token Type Provided: ''
                                   @ class_name (token_class authc_token)))
                | _ \<Rightarrow> Inl e)
           | Inr candidates \<Rightarrow>
               (case realms a of
                  None \<Rightarrow>
                    Inl (TypeError (''object of type '' @ apostrophe @ ''NoneType''
                                    @ apostrophe @ '' has no len()'') None)
                | Some all_realms \<Rightarrow>
                    if length all_realms = 1 then
                      (case candidates of
                         [] \<Rightarrow> Inl (IndexError ''list index out of range'')
                       | r # rest \<Rightarrow> authenticate_single_realm_account a r authc_token)
                    else authenticate_multi_realm_account a all_realms authc_token)))"

definition do_authenticate_account :: "authenticator \<Rightarrow> token \<Rightarrow> account outcome" where
  "do_authenticate_account a authc_token =
     (case dispatch a authc_token of
        Inl e \<Rightarrow> raise e
      | Inr account' \<Rightarrow>
          (case token_info authc_token of
             None \<Rightarrow>
               raise (AttributeError (''object has no attribute '' @ apostrophe
                                      @ ''token_info'' @ apostrophe))
           | Some info \<Rightarrow>
               (case account' of
                  None \<Rightarrow> raise NoneType_not_subscriptable
                | Some acct \<Rightarrow>
                    (case map_of (authc_info acct) (cred_type info) of
                       None \<Rightarrow> raise (KeyError (cred_type info))
                     | Some entry \<Rightarrow>
                         (let attempts =
                            (case failed_attempts entry of None \<Rightarrow> [] | Some fa \<Rightarrow> fa)
                          in and_then (validate_locked a authc_token attempts) (\<lambda>u.
                               if int (dict_len (authc_info acct)) > tier info then
                                 and_then (read_identifier authc_token) (\<lambda>ident.
                                 and_then (notify_event a ident
                                             ''AUTHENTICATION.PROGRESS'') (\<lambda>u.
                                   raise (AdditionalAuthenticationRequired (account_id acct))))
                               else return acct))))))"

text \<open>
  \<open>authenticate_account(identifiers, authc_token)\<close>. \<open>verify_sequence\<close> is the
  check of the authentication sequence that opens the method; assigning
  \<open>identifier\<close> on a \<open>UsernamePasswordToken\<close> goes through its setter
  (\<open>assign_identifier\<close>). \<open>handle_exception\<close> is the chain of \<open>except\<close> clauses,
  in the source's order; an exception of no handled class propagates, and
  \<open>send_challenge\<close> is the \<open>try\<close> around the challenger call, which passes over
  the \<open>AttributeError\<close> of an absent challenger. Every handled clause begins by
  reading \<open>authc_token.identifier\<close>. \<open>do_authenticate_account\<close>
  subscripts the account before it returns, so it never returns \<open>None\<close> and the
  test \<open>account is None\<close> never holds.
\<close>

definition assign_identifier :: "token \<Rightarrow> string option \<Rightarrow> exn + token" where
  "assign_identifier authc_token v =
     (if token_class authc_token = UsernamePasswordToken then
        (case UsernamePasswordToken_identifier_setter v of
           Inl e \<Rightarrow> Inl e
         | Inr v' \<Rightarrow> Inr (authc_token\<lparr>token_identifier := Present v'\<rparr>))
      else Inr (authc_token\<lparr>token_identifier := Present v\<rparr>))"

definition verify_sequence :: "identifier_collection option \<Rightarrow> token \<Rightarrow> exn + token" where
  "verify_sequence identifiers authc_token =
     (if (case getattr_identifier authc_token of None \<Rightarrow> True | Some s \<Rightarrow> s = []) then
        (case identifiers of
           None \<Rightarrow>
             Inl (InvalidAuthenticationSequenceException
                    ''Authentication must be performed in expected sequence.'')
         | Some ids \<Rightarrow> assign_identifier authc_token (primary_identifier ids))
      else Inr authc_token)"

definition send_challenge :: "authenticator \<Rightarrow> string option \<Rightarrow> unit outcome" where
  "send_challenge a ident =
     (case mfa_challenger a of
        None \<Rightarrow> return ()
      | Some c \<Rightarrow> (Inr (), [SendChallenge ident]))"

definition handle_exception :: "authenticator \<Rightarrow> token \<Rightarrow> exn \<Rightarrow> identifier_collection outcome" where
  "handle_exception a authc_token exc =
     (case exc of
        AdditionalAuthenticationRequired ids \<Rightarrow>
          and_then (read_identifier authc_token) (\<lambda>ident.
          and_then (notify_event a ident ''AUTHENTICATION.PROGRESS'') (\<lambda>u.
          and_then (send_challenge a ident) (\<lambda>u.
          raise exc)))
      | AccountException m \<Rightarrow>
          and_then (read_identifier authc_token) (\<lambda>ident.
          and_then (notify_event a ident ''AUTHENTICATION.ACCOUNT_NOT_FOUND'') (\<lambda>u.
          raise exc))
      | LockedAccountException m \<Rightarrow>
          and_then (read_identifier authc_token) (\<lambda>ident.
          and_then (notify_event a ident ''AUTHENTICATION.FAILED'') (\<lambda>u.
          and_then (notify_event a ident ''AUTHENTICATION.ACCOUNT_LOCKED'') (\<lambda>u.
          raise exc)))
      | IncorrectCredentialsException fa \<Rightarrow>
          and_then (read_identifier authc_token) (\<lambda>ident.
          and_then (notify_event a ident ''AUTHENTICATION.FAILED'') (\<lambda>u.
          (case fa of
             None \<Rightarrow>
               raise (AttributeError (''object has no attribute '' @ apostrophe
                                      @ ''failed_attempts'' @ apostrophe))
           | Some attempts \<Rightarrow>
               and_then (validate_locked a authc_token attempts) (\<lambda>u.
               raise (IncorrectCredentialsException None)))))
      | _ \<Rightarrow> raise exc)"

definition authenticator_authenticate_account ::
  "authenticator \<Rightarrow> identifier_collection option \<Rightarrow> token \<Rightarrow> identifier_collection outcome" where
  "authenticator_authenticate_account a identifiers authc_token =
     (case verify_sequence identifiers authc_token of
        Inl e \<Rightarrow> raise e
      | Inr tok1 \<Rightarrow>
          (case token_info_table (token_class tok1) of
             None \<Rightarrow> raise (KeyError (class_name (token_class tok1)))
           | Some info \<Rightarrow>
               (let tok2 = tok1\<lparr>token_info := Some info\<rparr>
                in case do_authenticate_account a tok2 of
                     (Inl exc, evs) \<Rightarrow>
                       (case handle_exception a tok2 exc of
                          (res, evs') \<Rightarrow> (res, evs @ evs'))
                   | (Inr acct, evs) \<Rightarrow>
                       (case notify_event a (primary_identifier (account_id acct))
                               ''AUTHENTICATION.SUCCEEDED'' of
                          (Inl e, evs') \<Rightarrow> (Inl e, evs @ evs')
                        | (Inr u, evs') \<Rightarrow> (Inr (account_id acct), evs @ evs')))))"

section \<open>Stub collaborators and concrete inputs\<close>

text \<open>
  A stub realm answers every token with the same verdict and supports the token
  classes it lists.
\<close>

definition stub_realm ::
  "string \<Rightarrow> token_class list \<Rightarrow> (exn + account option) \<Rightarrow> bool \<Rightarrow> realm" where
  "stub_realm n classes verdict locking =
     \<lparr>name = n,
      supports = (\<lambda>t. token_class t \<in> set classes),
      supported_authc_tokens = classes,
      authenticate_account = (\<lambda>t. verdict),
      has_lock_account = locking,
      is_authenticating_realm = True\<rparr>"

definition alice :: identifier_collection where
  "alice = \<lparr>primary_identifier = Some ''alice''\<rparr>"

text \<open>\<open>UsernamePasswordToken('alice', 'pw')\<close>, before and after metadata attachment.\<close>

definition alice_token :: token where
  "alice_token =
     \<lparr>token_class = UsernamePasswordToken, token_identifier = Present (Some ''alice''),
      credentials = Some (PyBytes [0x70, 0x77]), host = None, is_remember_me = False,
      token_info = None\<rparr>"

text \<open>\<open>TOTPToken(123456)\<close>, as its constructor leaves it: no identifier.\<close>

definition totp_token :: token where
  "totp_token =
     \<lparr>token_class = TOTPToken, token_identifier = Absent,
      credentials = Some (PyInt 123456), host = None, is_remember_me = False,
      token_info = None\<rparr>"


text \<open>
  Accounts for alice: one password entry with the given failed attempts, and
  optionally a second factor.
\<close>

definition password_account :: "nat list \<Rightarrow> account" where
  "password_account attempts =
     \<lparr>account_id = alice,
      authc_info =
        [(''password'', \<lparr>credential = PyStr [0x24, 0x68], failed_attempts = Some attempts\<rparr>)]\<rparr>"

definition mfa_account :: "nat list \<Rightarrow> account" where
  "mfa_account attempts =
     \<lparr>account_id = alice,
      authc_info =
        [(''password'', \<lparr>credential = PyStr [0x24, 0x68], failed_attempts = Some attempts\<rparr>),
         (''totp_key'', \<lparr>credential = PyStr [0x6B], failed_attempts = Some []\<rparr>)]\<rparr>"

text \<open>
  The default strategy of the authenticator is the first-realm-successful one.
\<close>

definition first_realm_successful_strategy ::
  "authentication_attempt \<Rightarrow> exn + account option" where
  "first_realm_successful_strategy authc_attempt =
     fst (FirstRealmSuccessfulStrategy_execute authc_attempt)"

text \<open>
  An authenticator over the given realms, lock threshold and event bus, with the
  fields as \<open>init_realms\<close> computes them (\<open>init_realms_configured\<close> below).
\<close>

definition configured_authenticator ::
  "realm list \<Rightarrow> int option \<Rightarrow> event_bus option \<Rightarrow> authenticator" where
  "configured_authenticator rs threshold bus =
     \<lparr>authc_settings = \<lparr>account_lock_threshold = threshold, mfa_challenger_configured = False\<rparr>,
      authentication_strategy = first_realm_successful_strategy,
      mfa_challenger = None,
      realms = Some rs,
      token_realm_resolver = Some (init_token_resolution rs),
      locking_realm = (if threshold = None \<or> threshold = Some 0 then None
                       else locate_locking_realm rs),
      locking_limit = (if threshold = Some 0 then None else threshold),
      event_bus = bus\<rparr>"

section \<open>Token construction\<close>

lemma UsernamePasswordToken_init_str:
  assumes "u \<noteq> []" and "utf8_encode s = Inr bs"
  shows "UsernamePasswordToken_init (Some u) (PyStr s) remember_me h =
           Inr \<lparr>token_class = UsernamePasswordToken, token_identifier = Present (Some u),
                credentials = Some (PyBytes bs), host = h, is_remember_me = remember_me,
                token_info = None\<rparr>"
  using assms
  by (simp add: UsernamePasswordToken_init_def UsernamePasswordToken_identifier_setter_def
        UsernamePasswordToken_credentials_setter_def)

lemma UsernamePasswordToken_init_bytes:
  "isl (UsernamePasswordToken_init username (PyBytes bs) remember_me h)"
  by (simp add: UsernamePasswordToken_init_def UsernamePasswordToken_identifier_setter_def
        UsernamePasswordToken_credentials_setter_def split: option.split)

lemma TOTPToken_init_six_digits:
  assumes "99999 < n" and "n < 1000000"
  shows "TOTPToken_init (PyInt n) remember_me =
           Inr \<lparr>token_class = TOTPToken, token_identifier = Absent,
                credentials = Some (PyInt n), host = None, is_remember_me = remember_me,
                token_info = None\<rparr>"
  using assms by (simp add: TOTPToken_init_def TOTPToken_credentials_setter_def)

lemma TOTPToken_init_other:
  assumes "\<And>n. v = PyInt n \<Longrightarrow> n \<le> 99999 \<or> 1000000 \<le> n"
  shows "isl (TOTPToken_init v remember_me)"
proof (cases v)
  case (PyInt n)
  with assms have "n \<le> 99999 \<or> 1000000 \<le> n" by simp
  with PyInt show ?thesis
    by (auto simp: TOTPToken_init_def TOTPToken_credentials_setter_def)
qed (simp_all add: TOTPToken_init_def TOTPToken_credentials_setter_def)

text \<open>
  C8. Token construction normalizes credentials: a \<open>str\<close> password is stored as
  its UTF-8 bytes, a \<open>bytes\<close> password as it is, a TOTP code in
  \<open>[100000, 999999]\<close> as that integer, and anything else fails.
  The code does not accept a \<open>bytes\<close> password: after the first \<open>if\<close> has
  stored it, the second \<open>if\<close> is false and its \<open>else\<close> raises \<open>ValueError\<close>.
  \<open>UsernamePasswordToken('alice', b'pw')\<close>:
\<close>

theorem UsernamePasswordToken_bytes_password_rejected:
  "UsernamePasswordToken_init (Some ''alice'') (PyBytes [0x70, 0x77]) False None =
     Inl (ValueError ''Password must be a str or bytes'')"
  by (simp add: UsernamePasswordToken_init_def UsernamePasswordToken_identifier_setter_def
        UsernamePasswordToken_credentials_setter_def isinstance_bytes_def)

section \<open>The attempt object\<close>

lemma object_setattr_readonly_property:
  assumes "map_of cls attr = Some (Property None)"
  shows "\<exists>msg. object_setattr cls self attr v = Inl (AttributeError msg)"
  using assms by (simp add: object_setattr_def)

text \<open>
  C10. For every token and realm set, constructing a
  \<open>DefaultAuthenticationAttempt\<close> raises \<open>AttributeError\<close>: \<open>__init__\<close> assigns to
  \<open>authentication_token\<close>, a property without a setter, so no instance is ever
  produced; and each getter calls itself, which ends at the recursion limit
  whatever the depth left.
\<close>

theorem DefaultAuthenticationAttempt_init_raises:
  "(\<exists>msg. DefaultAuthenticationAttempt_init authc_token realms' = Inl (AttributeError msg))
   \<and> DefaultAuthenticationAttempt_authentication_token depth self = Inl RecursionError
   \<and> DefaultAuthenticationAttempt_realms depth self = Inl RecursionError"
proof (intro conjI)
  have "map_of DefaultAuthenticationAttempt_class ''authentication_token'' = Some (Property None)"
    by (simp add: DefaultAuthenticationAttempt_class_def)
  from object_setattr_readonly_property [OF this]
  obtain msg where
    "object_setattr DefaultAuthenticationAttempt_class [] ''authentication_token''
       (TokenValue authc_token) = Inl (AttributeError msg)"
    by blast
  then show "\<exists>msg. DefaultAuthenticationAttempt_init authc_token realms' = Inl (AttributeError msg)"
    by (simp add: DefaultAuthenticationAttempt_init_def)
next
  show "DefaultAuthenticationAttempt_authentication_token depth self = Inl RecursionError"
    by (induction depth) simp_all
next
  show "DefaultAuthenticationAttempt_realms depth self = Inl RecursionError"
    by (induction depth) simp_all
qed

section \<open>The authenticator\<close>

lemma init_realms_configured:
  assumes "\<forall>r \<in> set rs. is_authenticating_realm r"
  shows "init_realms
           (DefaultAuthenticator_init
              \<lparr>account_lock_threshold = threshold, mfa_challenger_configured = False\<rparr>
              first_realm_successful_strategy)
           rs = (Inr (configured_authenticator rs threshold None), [])"
proof -
  from assms have "filter is_authenticating_realm rs = rs" by simp
  then show ?thesis
    by (cases threshold)
       (simp_all add: init_realms_def DefaultAuthenticator_init_def configured_authenticator_def
          register_cache_clear_listener_def and_then_def return_def init_locking_def)
qed


text \<open>
  C6. For every topic and identifier, when the authenticator's event bus is
  absent, publication through \<open>notify_event\<close> is a non-fatal no-op that never
  raises to its caller.
  The code publishes nothing and raises: the \<open>AttributeError\<close> of the call on
  \<open>None\<close> is caught and a new \<open>AttributeError\<close> with the message
  \<open>Could not publish <topic> event\<close> is raised in its place. The authenticator
  below has its realms set and no bus; publishing \<open>AUTHENTICATION.FAILED\<close>
  for alice raises.
\<close>

theorem notify_event_raises_counterexample:
  "event_bus (configured_authenticator
                [stub_realm ''R1'' [UsernamePasswordToken] (Inr None) False] None None) = None
   \<and> notify_event (configured_authenticator
                [stub_realm ''R1'' [UsernamePasswordToken] (Inr None) False] None None)
        (Some ''alice'') ''AUTHENTICATION.FAILED'' =
      (Inl (AttributeError ''Could not publish AUTHENTICATION.FAILED event''), [])"
  by (simp add: notify_event_def raise_def configured_authenticator_def)

text \<open>
  C6, as the code has it: with the event bus absent, \<open>notify_event\<close> sends no
  message and raises \<open>AttributeError\<close> with the message
  \<open>Could not publish <topic> event\<close>, for every topic and identifier.
\<close>

theorem notify_event_bus_absent:
  assumes "event_bus a = None"
  shows "notify_event a ident topic =
           (Inl (AttributeError (''Could not publish '' @ topic @ '' event'')), [])"
  using assms by (simp add: notify_event_def raise_def)

theorem notify_event_bus_absent_witness:
  "notify_event
     (DefaultAuthenticator_init
        \<lparr>account_lock_threshold = None, mfa_challenger_configured = False\<rparr>
        first_realm_successful_strategy)
     (Some ''alice'') ''AUTHENTICATION.SUCCEEDED'' =
     (Inl (AttributeError ''Could not publish AUTHENTICATION.SUCCEEDED event''), [])"
  using notify_event_bus_absent
          [of "DefaultAuthenticator_init
                 \<lparr>account_lock_threshold = None, mfa_challenger_configured = False\<rparr>
                 first_realm_successful_strategy"
              "Some ''alice''" "''AUTHENTICATION.SUCCEEDED''"]
  by (simp add: DefaultAuthenticator_init_def)

subsection \<open>Locking\<close>

lemma validate_locked_within_limit:
  "\<not> limit_breached a attempts \<Longrightarrow> validate_locked a authc_token attempts = (Inr (), [])"
  by (simp add: validate_locked_def return_def)

lemma validate_locked_disabled:
  "locking_limit a = None \<Longrightarrow> validate_locked a authc_token attempts = (Inr (), [])"
  by (simp add: validate_locked_within_limit limit_breached_def)

lemma validate_locked_LockedAccount_only_if:
  assumes "fst (validate_locked a authc_token attempts) = Inl (LockedAccountException m)"
  shows "limit_breached a attempts"
  using assms by (auto simp: validate_locked_def return_def split: if_splits)

lemma validate_locked_no_identifier:
  assumes "limit_breached a attempts" and "token_identifier authc_token = Absent"
  shows "validate_locked a authc_token attempts = (Inl (has_no_identifier authc_token), [])"
  using assms by (simp add: validate_locked_def read_identifier_def and_then_def raise_def)

lemma validate_locked_no_locking_realm:
  assumes "limit_breached a attempts" and "token_identifier authc_token = Present ident"
    and "locking_realm a = None"
  shows "validate_locked a authc_token attempts =
           (Inl (NoneType_has_no_attribute ''lock_account''), [])"
  using assms
  by (simp add: validate_locked_def read_identifier_def lock_account_def and_then_def
        raise_def return_def)

text \<open>
  \<open>TOTPToken(123456)\<close> has no identifier: past the threshold, building the
  message raises before the locking realm is called.
\<close>

lemma validate_locked_TOTPToken_without_identifier:
  "TOTPToken_init (PyInt 123456) False = Inr totp_token
   \<and> validate_locked
       (configured_authenticator
          [stub_realm ''R1'' [UsernamePasswordToken] (Inr None) True] (Some 3) (Some EventBus))
       totp_token [1, 2, 3, 4] =
       (Inl (AttributeError (apostrophe @ ''TOTPToken'' @ apostrophe
                             @ '' object has no attribute '' @ apostrophe
                             @ ''identifier'' @ apostrophe)), [])"
  by (simp add: TOTPToken_init_def TOTPToken_credentials_setter_def totp_token_def
        validate_locked_def limit_breached_def read_identifier_def has_no_identifier_def
        and_then_def raise_def configured_authenticator_def)




subsection \<open>The MFA gate\<close>

lemma do_authenticate_account_AdditionalAuthenticationRequired_only_if:
  assumes "dispatch a authc_token = Inr (Some acct)"
    and "token_info authc_token = Some info"
    and "fst (do_authenticate_account a authc_token) =
           Inl (AdditionalAuthenticationRequired ids)"
  shows "tier info < int (dict_len (authc_info acct)) \<and> ids = account_id acct"
  using assms
  by (auto simp: do_authenticate_account_def validate_locked_def lock_account_def
        read_identifier_def has_no_identifier_def
        notify_event_def and_then_def raise_def return_def NoneType_has_no_attribute_def
        split: option.splits if_splits prod.splits sum.splits attribute.splits)

lemma do_authenticate_account_missing_entry:
  assumes "dispatch a authc_token = Inr (Some acct)"
    and "token_info authc_token = Some info"
    and "map_of (authc_info acct) (cred_type info) = None"
  shows "do_authenticate_account a authc_token = (Inl (KeyError (cred_type info)), [])"
  using assms by (simp add: do_authenticate_account_def raise_def)

lemma do_authenticate_account_locked:
  assumes "dispatch a authc_token = Inr (Some acct)"
    and "token_info authc_token = Some info"
    and "map_of (authc_info acct) (cred_type info) = Some entry"
    and "limit_breached a (case failed_attempts entry of None \<Rightarrow> [] | Some fa \<Rightarrow> fa)"
  shows "\<exists>e evs.
           validate_locked a authc_token
             (case failed_attempts entry of None \<Rightarrow> [] | Some fa \<Rightarrow> fa) = (Inl e, evs)
           \<and> do_authenticate_account a authc_token = (Inl e, evs)"
  using assms
  by (auto simp: do_authenticate_account_def validate_locked_def lock_account_def
        read_identifier_def notify_event_def and_then_def raise_def return_def
        split: option.splits attribute.splits)

lemma do_authenticate_account_bus_absent:
  assumes "dispatch a authc_token = Inr (Some acct)"
    and "token_info authc_token = Some info"
    and "map_of (authc_info acct) (cred_type info) = Some entry"
    and "\<not> limit_breached a (case failed_attempts entry of None \<Rightarrow> [] | Some fa \<Rightarrow> fa)"
    and "event_bus a = None"
    and "tier info < int (dict_len (authc_info acct))"
    and "token_identifier authc_token = Present ident"
  shows "do_authenticate_account a authc_token =
           (Inl (AttributeError ''Could not publish AUTHENTICATION.PROGRESS event''), [])"
  using assms
  by (simp add: do_authenticate_account_def validate_locked_within_limit notify_event_def
        read_identifier_def and_then_def raise_def return_def)

text \<open>
  A token that has passed the sequence check of \<open>authenticate_account\<close> has its
  identifier attribute, so every dispatched token has one.
\<close>

lemma verify_sequence_identifier_present:
  assumes "verify_sequence identifiers authc_token = Inr tok"
  shows "\<exists>v. token_identifier tok = Present v"
  using assms
  by (auto simp: verify_sequence_def assign_identifier_def getattr_identifier_def
        split: if_splits option.splits sum.splits attribute.splits)




subsection \<open>Unsupported tokens\<close>

lemma unregistered_token_class:
  assumes "token_info_table (token_class authc_token) = None"
    and "token_identifier authc_token = Present (Some u)" and "u \<noteq> []"
  shows "authenticator_authenticate_account a identifiers authc_token =
           (Inl (KeyError (class_name (token_class authc_token))), [])"
  using assms
  by (simp add: authenticator_authenticate_account_def verify_sequence_def
        getattr_identifier_def raise_def)

lemma defaultdict_getitem_returns: "defaultdict_getitem d k \<noteq> Inl e"
  by (simp add: defaultdict_getitem_def)

lemma dispatch_no_candidates:
  assumes "token_realm_resolver a = Some resolver"
    and "map_of resolver (token_class authc_token) = None
         \<or> map_of resolver (token_class authc_token) = Some []"
    and "realms a = Some rs"
  shows "dispatch a authc_token =
           (if length rs = 1 then Inl (IndexError ''list index out of range'')
            else authentication_strategy a
                   \<lparr>authentication_token = authc_token, attempt_realms = rs\<rparr>)"
  using assms
  by (auto simp: dispatch_def defaultdict_getitem_def authenticate_multi_realm_account_def)

lemma unsupported_token_two_realms:
  "authenticator_authenticate_account
     (configured_authenticator
        [stub_realm ''R1'' [TOTPToken] (Inr None) False,
         stub_realm ''R2'' [TOTPToken] (Inr None) False] None None)
     None alice_token = (Inl NoneType_not_subscriptable, [])"
  by (simp add: authenticator_authenticate_account_def verify_sequence_def
        getattr_identifier_def alice_token_def
        do_authenticate_account_def dispatch_def configured_authenticator_def
        init_token_resolution_def defaultdict_append_def defaultdict_getitem_def stub_realm_def
        authenticate_multi_realm_account_def first_realm_successful_strategy_def
        FirstRealmSuccessfulStrategy_execute_def raise_def handle_exception_def
        NoneType_not_subscriptable_def)

text \<open>
  C7. For every token whose kind is not registered in the token-info table, or
  for which no candidate realm exists in the resolver, authentication fails with
  an unsupported-token-kind error: the \<open>KeyError\<close> of metadata attachment in
  \<open>authenticate_account\<close>, or the \<open>KeyError\<close> that \<open>do_authenticate_account\<close>
  raises at candidate-realm lookup.
  The resolver is a \<open>defaultdict(list)\<close>, so the lookup never raises and the
  \<open>except KeyError\<close> clause is never entered. An authenticator initialised with
  one realm that supports only \<open>TOTPToken\<close> is given
  \<open>UsernamePasswordToken('alice', 'pw')\<close>, a registered kind: the candidate list
  is empty, and \<open>realms[0]\<close> raises \<open>IndexError\<close>.
\<close>

theorem unsupported_token_IndexError:
  "init_realms
     (DefaultAuthenticator_init
        \<lparr>account_lock_threshold = None, mfa_challenger_configured = False\<rparr>
        first_realm_successful_strategy)
     [stub_realm ''R1'' [TOTPToken] (Inr None) False] =
     (Inr (configured_authenticator [stub_realm ''R1'' [TOTPToken] (Inr None) False] None None),
      [])
   \<and> UsernamePasswordToken_init (Some ''alice'') (PyStr [0x70, 0x77]) False None =
       Inr alice_token
   \<and> token_info_table (token_class alice_token) = Some \<lparr>tier = 1, cred_type = ''password''\<rparr>
   \<and> authenticator_authenticate_account
       (configured_authenticator [stub_realm ''R1'' [TOTPToken] (Inr None) False] None None)
       None alice_token =
       (Inl (IndexError ''list index out of range''), [])"
proof (intro conjI)
  show "init_realms
     (DefaultAuthenticator_init
        \<lparr>account_lock_threshold = None, mfa_challenger_configured = False\<rparr>
        first_realm_successful_strategy)
     [stub_realm ''R1'' [TOTPToken] (Inr None) False] =
     (Inr (configured_authenticator [stub_realm ''R1'' [TOTPToken] (Inr None) False] None None),
      [])"
    by (rule init_realms_configured) (simp add: stub_realm_def)
next
  show "UsernamePasswordToken_init (Some ''alice'') (PyStr [0x70, 0x77]) False None =
          Inr alice_token"
    by (simp add: UsernamePasswordToken_init_def UsernamePasswordToken_identifier_setter_def
          UsernamePasswordToken_credentials_setter_def utf8_encode_char_def alice_token_def)
next
  show "token_info_table (token_class alice_token) = Some \<lparr>tier = 1, cred_type = ''password''\<rparr>"
    by (simp add: alice_token_def)
next
  show "authenticator_authenticate_account
       (configured_authenticator [stub_realm ''R1'' [TOTPToken] (Inr None) False] None None)
       None alice_token =
       (Inl (IndexError ''list index out of range''), [])"
    by (simp add: authenticator_authenticate_account_def verify_sequence_def
        getattr_identifier_def alice_token_def
          do_authenticate_account_def dispatch_def configured_authenticator_def
          init_token_resolution_def defaultdict_append_def defaultdict_getitem_def stub_realm_def
          raise_def handle_exception_def)
qed

section \<open>Association lists as dicts\<close>

lemma update_fresh_key: "k \<notin> fst ` set al \<Longrightarrow> AList.update k v al = al @ [(k, v)]"
  by (induction al) auto

section \<open>AllRealmsSuccessfulStrategy\<close>

text \<open>
  When no supporting realm raises and realm names are unique, the strategy
  returns nothing, the one account, or the composite of all accounts returned,
  the first realm's account first.
\<close>

lemma AllRealmsSuccessful_loop_composite:
  assumes "\<forall>q \<in> set rs. supports q tok \<longrightarrow> \<not> isl (authenticate_account q tok)"
    and "distinct (map name rs)"
    and "fst ` set c \<inter> name ` set rs = {}"
  shows "AllRealmsSuccessful_loop tok rs (Some f, Some c) =
           Inr (Some f,
                Some (c @ map (\<lambda>q. (name q, the (projr (authenticate_account q tok))))
                            (filter (\<lambda>q. supports q tok \<and> authenticate_account q tok \<noteq> Inr None)
                               rs)))"
  using assms
proof (induction rs arbitrary: c)
  case Nil
  then show ?case by simp
next
  case (Cons r rs)
  obtain n fa where f: "f = (n, fa)" by (cases f)
  from Cons.prems have
    nr: "\<forall>q \<in> set rs. supports q tok \<longrightarrow> \<not> isl (authenticate_account q tok)"
    and d: "distinct (map name rs)"
    and fresh: "name r \<notin> fst ` set c"
    and r_new: "name r \<notin> name ` set rs"
    and disj: "fst ` set c \<inter> name ` set rs = {}"
    by auto
  show ?case
  proof (cases "supports r tok")
    case False
    with Cons.IH [OF nr d disj] show ?thesis by simp
  next
    case True
    with Cons.prems obtain v where v: "authenticate_account r tok = Inr v"
      by (cases "authenticate_account r tok") auto
    show ?thesis
    proof (cases v)
      case None
      with Cons.IH [OF nr d disj] True v show ?thesis by simp
    next
      case (Some a)
      from disj r_new have "fst ` set (c @ [(name r, a)]) \<inter> name ` set rs = {}" by auto
      from Cons.IH [OF nr d this] True v Some fresh f show ?thesis
        by (simp add: append_realm_account_def update_fresh_key)
    qed
  qed
qed

lemma AllRealmsSuccessful_loop_first:
  assumes "\<forall>q \<in> set rs. supports q tok \<longrightarrow> \<not> isl (authenticate_account q tok)"
    and "distinct (map name rs)"
    and "n \<notin> name ` set rs"
  shows "AllRealmsSuccessful_loop tok rs (Some (n, fa), None) =
           Inr (Some (n, fa),
                (case map (\<lambda>q. (name q, the (projr (authenticate_account q tok))))
                        (filter (\<lambda>q. supports q tok \<and> authenticate_account q tok \<noteq> Inr None)
                           rs) of
                   [] \<Rightarrow> None
                 | x # xs \<Rightarrow> Some ((n, fa) # x # xs)))"
  using assms
proof (induction rs)
  case Nil
  then show ?case by simp
next
  case (Cons r rs)
  from Cons.prems have
    nr: "\<forall>q \<in> set rs. supports q tok \<longrightarrow> \<not> isl (authenticate_account q tok)"
    and d: "distinct (map name rs)"
    and n_new: "n \<notin> name ` set rs"
    and r_new: "name r \<notin> name ` set rs"
    and ne: "name r \<noteq> n"
    by auto
  show ?case
  proof (cases "supports r tok")
    case False
    with Cons.IH [OF nr d n_new] show ?thesis by simp
  next
    case True
    with Cons.prems obtain v where v: "authenticate_account r tok = Inr v"
      by (cases "authenticate_account r tok") auto
    show ?thesis
    proof (cases v)
      case None
      with Cons.IH [OF nr d n_new] True v show ?thesis by simp
    next
      case (Some a)
      from n_new r_new have "fst ` set [(n, fa), (name r, a)] \<inter> name ` set rs = {}" by auto
      from AllRealmsSuccessful_loop_composite [OF nr d this, of "(n, fa)"] True v Some ne
      show ?thesis
        by (simp add: append_realm_account_def DefaultCompositeAccount_def)
    qed
  qed
qed

lemma AllRealmsSuccessful_loop_start:
  assumes "\<forall>q \<in> set rs. supports q tok \<longrightarrow> \<not> isl (authenticate_account q tok)"
    and "distinct (map name rs)"
  shows "AllRealmsSuccessful_loop tok rs (None, None) =
           Inr (case map (\<lambda>q. (name q, the (projr (authenticate_account q tok))))
                       (filter (\<lambda>q. supports q tok \<and> authenticate_account q tok \<noteq> Inr None)
                          rs) of
                  [] \<Rightarrow> (None, None)
                | [x] \<Rightarrow> (Some x, None)
                | x # y # ys \<Rightarrow> (Some x, Some (x # y # ys)))"
  using assms
proof (induction rs)
  case Nil
  then show ?case by simp
next
  case (Cons r rs)
  from Cons.prems have
    nr: "\<forall>q \<in> set rs. supports q tok \<longrightarrow> \<not> isl (authenticate_account q tok)"
    and d: "distinct (map name rs)"
    and r_new: "name r \<notin> name ` set rs"
    by auto
  show ?case
  proof (cases "supports r tok")
    case False
    with Cons.IH [OF nr d] show ?thesis by simp
  next
    case True
    with Cons.prems obtain v where v: "authenticate_account r tok = Inr v"
      by (cases "authenticate_account r tok") auto
    show ?thesis
    proof (cases v)
      case None
      with Cons.IH [OF nr d] True v show ?thesis by simp
    next
      case (Some a)
      from AllRealmsSuccessful_loop_first [OF nr d r_new, of a] True v Some
      show ?thesis
        by (simp split: list.split)
    qed
  qed
qed

lemma AllRealmsSuccessfulStrategy_composite:
  assumes "\<forall>q \<in> set rs. supports q tok \<longrightarrow> \<not> isl (authenticate_account q tok)"
    and "distinct (map name rs)"
    and "2 \<le> length (filter (\<lambda>q. supports q tok \<and> authenticate_account q tok \<noteq> Inr None) rs)"
  shows "\<exists>subs. AllRealmsSuccessfulStrategy_execute
                   \<lparr>authentication_token = tok, attempt_realms = rs\<rparr> =
                   Inr (Some (CompositeAccount subs))
               \<and> subs = map (\<lambda>q. (name q, the (projr (authenticate_account q tok))))
                          (filter (\<lambda>q. supports q tok \<and> authenticate_account q tok \<noteq> Inr None)
                             rs)
               \<and> 2 \<le> length subs \<and> distinct (map fst subs)"
proof -
  let ?succ = "map (\<lambda>q. (name q, the (projr (authenticate_account q tok))))
                 (filter (\<lambda>q. supports q tok \<and> authenticate_account q tok \<noteq> Inr None) rs)"
  from assms(3) have len: "2 \<le> length ?succ" by simp
  then obtain x y ys where s: "?succ = x # y # ys"
    by (cases ?succ; cases "tl ?succ") auto
  have names: "map fst ?succ =
          map name (filter (\<lambda>q. supports q tok \<and> authenticate_account q tok \<noteq> Inr None) rs)"
    by (simp add: comp_def)
  from assms(2) have
    "distinct (map name (filter (\<lambda>q. supports q tok \<and> authenticate_account q tok \<noteq> Inr None) rs))"
    by (rule distinct_map_filter)
  with names have dist: "distinct (map fst ?succ)"
    by (simp only:)
  from AllRealmsSuccessful_loop_start [OF assms(1,2)] s
  have "AllRealmsSuccessfulStrategy_execute \<lparr>authentication_token = tok, attempt_realms = rs\<rparr> =
          Inr (Some (CompositeAccount ?succ))"
    by (simp add: AllRealmsSuccessfulStrategy_execute_def)
  with len dist show ?thesis by blast
qed

section \<open>AtLeastOneRealmSuccessfulStrategy\<close>

lemma AtLeastOne_step_not_supported:
  "\<not> supports r tok \<Longrightarrow> AtLeastOneRealmSuccessful_step tok st r = st"
  by (cases st) simp

lemma AtLeastOne_step_raise_stale:
  assumes "supports r tok" and "authenticate_account r tok = Inl ex"
  shows "AtLeastOneRealmSuccessful_step tok (errs, Some a, Some f, c) r =
           (AList.update (name r) ex errs, Some a, Some f,
            Some (append_realm_account
                    (case c of None \<Rightarrow> DefaultCompositeAccount | Some c' \<Rightarrow> c') (name r) a))"
  using assms by (simp add: Let_def)

lemma AtLeastOne_step_raise_none:
  assumes "supports r tok" and "authenticate_account r tok = Inl ex"
  shows "AtLeastOneRealmSuccessful_step tok (errs, None, first, c) r =
           (AList.update (name r) ex errs, None, first, c)"
  using assms by simp

lemma AtLeastOne_step_return_none:
  assumes "supports r tok" and "authenticate_account r tok = Inr None"
  shows "AtLeastOneRealmSuccessful_step tok (errs, acc, first, c) r = (errs, None, first, c)"
  using assms by simp

lemma AtLeastOne_step_success:
  assumes "supports q tok" and "authenticate_account q tok = Inr (Some a)"
  shows "\<exists>f c'. AtLeastOneRealmSuccessful_step tok (errs, acc, first, c) q =
                   (errs, Some a, Some f, c')"
  using assms by (cases first) simp_all

lemma AtLeastOne_loop_no_success:
  assumes "\<forall>r \<in> set rs. supports r tok \<longrightarrow> (\<forall>a. authenticate_account r tok \<noteq> Inr (Some a))"
  shows "\<exists>errs'. foldl (AtLeastOneRealmSuccessful_step tok) (errs, None, None, None) rs =
                   (errs', None, None, None)"
  using assms
proof (induction rs arbitrary: errs)
  case Nil
  then show ?case by simp
next
  case (Cons r rs)
  have "\<exists>errs1. AtLeastOneRealmSuccessful_step tok (errs, None, None, None) r =
                  (errs1, None, None, None)"
  proof (cases "supports r tok")
    case False
    then show ?thesis by (simp add: AtLeastOne_step_not_supported)
  next
    case True
    with Cons.prems have ns: "\<forall>a. authenticate_account r tok \<noteq> Inr (Some a)" by simp
    show ?thesis
    proof (cases "authenticate_account r tok")
      case (Inl ex)
      with True show ?thesis by (simp add: AtLeastOne_step_raise_none)
    next
      case (Inr v)
      with ns have "authenticate_account r tok = Inr None" by (cases v) simp_all
      with True show ?thesis by (simp add: AtLeastOne_step_return_none)
    qed
  qed
  then obtain errs1 where
    s: "AtLeastOneRealmSuccessful_step tok (errs, None, None, None) r = (errs1, None, None, None)"
    by blast
  from Cons.prems have "\<forall>r \<in> set rs. supports r tok \<longrightarrow> (\<forall>a. authenticate_account r tok \<noteq> Inr (Some a))"
    by simp
  from Cons.IH [OF this, of errs1] s show ?case by simp
qed

lemma AtLeastOne_execute_no_success:
  assumes "\<forall>r \<in> set (attempt_realms att). supports r (authentication_token att)
             \<longrightarrow> (\<forall>a. authenticate_account r (authentication_token att) \<noteq> Inr (Some a))"
  shows "\<exists>msg. AtLeastOneRealmSuccessfulStrategy_execute AtLeastOneRealmSuccessfulStrategy_new att =
           Inl (AttributeError msg)"
proof -
  from AtLeastOne_loop_no_success [OF assms, of "[]"] obtain errs' where
    "AtLeastOneRealmSuccessful_loop (authentication_token att) (attempt_realms att) =
       (errs', None, None, None)"
    unfolding AtLeastOneRealmSuccessful_loop_def by blast
  then show ?thesis
    by (simp add: AtLeastOneRealmSuccessfulStrategy_execute_def
          AtLeastOneRealmSuccessfulStrategy_new_def)
qed

text \<open>
  C3. When no supporting realm returns a non-null account and at least one
  supporting realm raised, \<open>AtLeastOneRealmSuccessfulStrategy.execute\<close> raises
  \<open>MultiRealmAuthentication\<close> with the per-realm errors it collected; with no
  successes and no errors it returns null.
  The code tests \<open>self.realm_errors\<close>, an attribute the strategy object does not
  have, not the local \<open>realm_errors\<close>. One realm that raises
  \<open>IncorrectCredentials\<close>, and then no realm at all: both runs end in
  \<open>AttributeError\<close> (as does every run without a success,
  \<open>AtLeastOne_execute_no_success\<close>).
\<close>

theorem AtLeastOne_errors_not_reported:
  "AtLeastOneRealmSuccessfulStrategy_execute AtLeastOneRealmSuccessfulStrategy_new
     \<lparr>authentication_token = alice_token,
      attempt_realms =
        [stub_realm ''R1'' [UsernamePasswordToken]
           (Inl (IncorrectCredentialsException (Some [1]))) False]\<rparr> =
     Inl (AttributeError (apostrophe @ ''AtLeastOneRealmSuccessfulStrategy'' @ apostrophe
                          @ '' object has no attribute '' @ apostrophe
                          @ ''realm_errors'' @ apostrophe))
   \<and> AtLeastOneRealmSuccessfulStrategy_execute AtLeastOneRealmSuccessfulStrategy_new
     \<lparr>authentication_token = alice_token, attempt_realms = []\<rparr> =
     Inl (AttributeError (apostrophe @ ''AtLeastOneRealmSuccessfulStrategy'' @ apostrophe
                          @ '' object has no attribute '' @ apostrophe
                          @ ''realm_errors'' @ apostrophe))"
  by (simp add: AtLeastOneRealmSuccessfulStrategy_execute_def AtLeastOneRealmSuccessful_loop_def
        AtLeastOneRealmSuccessfulStrategy_new_def stub_realm_def alice_token_def)

text \<open>
  C4. For every execution of \<open>AllRealmsSuccessful\<close> and
  \<open>AtLeastOneRealmSuccessful\<close> in which at least two realms return non-null
  accounts, the value returned is a composite account with at least two
  sub-accounts, the first realm's account among them, under pairwise distinct
  realm names.
  \<open>AllRealmsSuccessful\<close> does so (\<open>AllRealmsSuccessfulStrategy_composite\<close>).
  \<open>AtLeastOneRealmSuccessful\<close> creates the composite on the second success
  without storing \<open>first_account\<close> in it: for two realms that both return an
  account, its composite holds the second realm's account only, where the
  sibling strategy returns both.
\<close>

theorem AtLeastOne_composite_misses_first_account:
  "AtLeastOneRealmSuccessfulStrategy_execute AtLeastOneRealmSuccessfulStrategy_new
     \<lparr>authentication_token = alice_token,
      attempt_realms =
        [stub_realm ''R1'' [UsernamePasswordToken] (Inr (Some (password_account []))) False,
         stub_realm ''R2'' [UsernamePasswordToken] (Inr (Some (mfa_account []))) False]\<rparr> =
     Inr (Some (CompositeAccount [(''R2'', mfa_account [])]))
   \<and> AllRealmsSuccessfulStrategy_execute
     \<lparr>authentication_token = alice_token,
      attempt_realms =
        [stub_realm ''R1'' [UsernamePasswordToken] (Inr (Some (password_account []))) False,
         stub_realm ''R2'' [UsernamePasswordToken] (Inr (Some (mfa_account []))) False]\<rparr> =
     Inr (Some (CompositeAccount [(''R1'', password_account []), (''R2'', mfa_account [])]))"
  by (simp add: AtLeastOneRealmSuccessfulStrategy_execute_def AtLeastOneRealmSuccessful_loop_def
        AllRealmsSuccessfulStrategy_execute_def AtLeastOneRealmSuccessfulStrategy_new_def
        stub_realm_def alice_token_def append_realm_account_def DefaultCompositeAccount_def)

lemma AtLeastOne_loop_mid:
  assumes "\<forall>m \<in> set mid. supports m tok \<longrightarrow> isl (authenticate_account m tok)"
  shows "\<exists>errs' c'. foldl (AtLeastOneRealmSuccessful_step tok) (errs, Some a, Some f, c) mid =
                      (errs', Some a, Some f, c')"
  using assms
proof (induction mid arbitrary: errs c)
  case Nil
  then show ?case by simp
next
  case (Cons m mid)
  have "\<exists>errs1 c1. AtLeastOneRealmSuccessful_step tok (errs, Some a, Some f, c) m =
                     (errs1, Some a, Some f, c1)"
  proof (cases "supports m tok")
    case False
    then show ?thesis by (simp add: AtLeastOne_step_not_supported)
  next
    case True
    with Cons.prems obtain ex where "authenticate_account m tok = Inl ex"
      by (cases "authenticate_account m tok") auto
    from AtLeastOne_step_raise_stale [OF True this] show ?thesis by blast
  qed
  then obtain errs1 c1 where
    s: "AtLeastOneRealmSuccessful_step tok (errs, Some a, Some f, c) m = (errs1, Some a, Some f, c1)"
    by blast
  from Cons.prems have "\<forall>m \<in> set mid. supports m tok \<longrightarrow> isl (authenticate_account m tok)"
    by simp
  from Cons.IH [OF this, of errs1 c1] s show ?case by simp
qed

lemma AtLeastOne_step_keeps_entry:
  assumes "supports p tok \<longrightarrow> name p \<noteq> k" and "map_of c k = Some a"
  shows "\<exists>errs' acc' f' c'.
           AtLeastOneRealmSuccessful_step tok (errs, acc, Some f, Some c) p =
             (errs', acc', Some f', Some c')
           \<and> map_of c' k = Some a"
proof (cases "supports p tok")
  case False
  with assms show ?thesis by (simp add: AtLeastOne_step_not_supported)
next
  case True
  with assms have ne: "name p \<noteq> k" by simp
  show ?thesis
  proof (cases "authenticate_account p tok")
    case (Inl ex)
    with True ne assms(2) show ?thesis
      by (cases acc) (simp_all add: Let_def append_realm_account_def update_conv')
  next
    case (Inr v)
    with True ne assms(2) show ?thesis
      by (cases v) (simp_all add: Let_def append_realm_account_def update_conv')
  qed
qed

lemma AtLeastOne_loop_keeps_entry:
  assumes "\<forall>p \<in> set post. supports p tok \<longrightarrow> name p \<noteq> k" and "map_of c k = Some a"
  shows "\<exists>errs' acc' f' c'.
           foldl (AtLeastOneRealmSuccessful_step tok) (errs, acc, Some f, Some c) post =
             (errs', acc', Some f', Some c')
           \<and> map_of c' k = Some a"
  using assms
proof (induction post arbitrary: errs acc f c)
  case Nil
  then show ?case by simp
next
  case (Cons p post)
  from Cons.prems have "supports p tok \<longrightarrow> name p \<noteq> k" by simp
  from AtLeastOne_step_keeps_entry [OF this Cons.prems(2), of errs acc f]
  obtain errs1 acc1 f1 c1 where
    s: "AtLeastOneRealmSuccessful_step tok (errs, acc, Some f, Some c) p =
          (errs1, acc1, Some f1, Some c1)"
    and m: "map_of c1 k = Some a"
    by blast
  from Cons.prems have "\<forall>p \<in> set post. supports p tok \<longrightarrow> name p \<noteq> k" by simp
  from Cons.IH [OF this m, of errs1 acc1 f1] s show ?case by simp
qed

text \<open>
  C9. In \<open>AtLeastOneRealmSuccessfulStrategy.execute\<close> the loop-local \<open>account\<close>
  is not reset between iterations: for every attempt in which some realm returns
  a non-null account and a later supporting realm raises, the earlier realm's
  account is stored in the accumulating result under the raising realm's name.
  The variable holds what the last realm that returned has returned, and that
  may be \<open>None\<close>: R1 returns an account, R2 returns \<open>None\<close>, R3 raises. Nothing
  is credited to R3, no composite is built, and R1's account is returned.
\<close>

theorem AtLeastOne_stale_account_counterexample:
  "AtLeastOneRealmSuccessfulStrategy_execute AtLeastOneRealmSuccessfulStrategy_new
     \<lparr>authentication_token = alice_token,
      attempt_realms =
        [stub_realm ''R1'' [UsernamePasswordToken] (Inr (Some (password_account []))) False,
         stub_realm ''R2'' [UsernamePasswordToken] (Inr None) False,
         stub_realm ''R3'' [UsernamePasswordToken] (Inl (AccountException ''no account'')) False]\<rparr> =
     Inr (Some (Account (password_account [])))"
  by (simp add: AtLeastOneRealmSuccessfulStrategy_execute_def AtLeastOneRealmSuccessful_loop_def
        AtLeastOneRealmSuccessfulStrategy_new_def stub_realm_def alice_token_def Let_def
        append_realm_account_def DefaultCompositeAccount_def)

text \<open>
  C9, as the code has it: for every attempt (with unique realm names) in which a
  supporting realm \<open>q\<close> returns a non-null account, every supporting realm
  between \<open>q\<close> and a later supporting realm \<open>r\<close> raises, and \<open>r\<close> raises: the
  strategy returns a composite account in which the account of \<open>q\<close> is stored
  under the name of \<open>r\<close>.
\<close>

theorem AtLeastOne_stale_account_credited:
  assumes split: "attempt_realms att = pre @ q # mid @ r # post"
    and q: "supports q (authentication_token att)"
           "authenticate_account q (authentication_token att) = Inr (Some a)"
    and mid: "\<forall>m \<in> set mid. supports m (authentication_token att)
                \<longrightarrow> isl (authenticate_account m (authentication_token att))"
    and r: "supports r (authentication_token att)"
           "authenticate_account r (authentication_token att) = Inl ex"
    and names: "distinct (map name (attempt_realms att))"
  shows "\<exists>subs. AtLeastOneRealmSuccessfulStrategy_execute self att =
                  Inr (Some (CompositeAccount subs))
               \<and> map_of subs (name r) = Some a"
proof -
  let ?tok = "authentication_token att"
  let ?step = "AtLeastOneRealmSuccessful_step ?tok"
  obtain e0 a0 f0 c0 where s0: "foldl ?step ([], None, None, None) pre = (e0, a0, f0, c0)"
    by (cases "foldl ?step ([], None, None, None) pre") auto
  from AtLeastOne_step_success [OF q, of e0 a0 f0 c0] obtain f c1 where
    s1: "?step (e0, a0, f0, c0) q = (e0, Some a, Some f, c1)" by blast
  from AtLeastOne_loop_mid [OF mid, of e0 a f c1] obtain e2 c2 where
    s2: "foldl ?step (e0, Some a, Some f, c1) mid = (e2, Some a, Some f, c2)" by blast
  let ?c3 = "append_realm_account (case c2 of None \<Rightarrow> DefaultCompositeAccount | Some c' \<Rightarrow> c')
               (name r) a"
  have s3: "?step (e2, Some a, Some f, c2) r =
              (AList.update (name r) ex e2, Some a, Some f, Some ?c3)"
    by (rule AtLeastOne_step_raise_stale [OF r])
  have m3: "map_of ?c3 (name r) = Some a"
    by (simp add: append_realm_account_def update_conv')
  from names split have "name r \<notin> name ` set post" by simp
  then have "\<forall>p \<in> set post. name p \<noteq> name r" by (metis imageI)
  then have "\<forall>p \<in> set post. supports p ?tok \<longrightarrow> name p \<noteq> name r" by simp
  from AtLeastOne_loop_keeps_entry [OF this m3, of "AList.update (name r) ex e2" "Some a" f]
  obtain e4 a4 f4 c4 where
    s4: "foldl ?step (AList.update (name r) ex e2, Some a, Some f, Some ?c3) post =
           (e4, a4, Some f4, Some c4)"
    and m4: "map_of c4 (name r) = Some a"
    by blast
  have "AtLeastOneRealmSuccessful_loop ?tok (attempt_realms att) = (e4, a4, Some f4, Some c4)"
    unfolding AtLeastOneRealmSuccessful_loop_def split
    by (simp only: foldl_append foldl_Cons s0 s1 s2 s3 s4)
  then have "AtLeastOneRealmSuccessfulStrategy_execute self att = Inr (Some (CompositeAccount c4))"
    by (simp add: AtLeastOneRealmSuccessfulStrategy_execute_def)
  with m4 show ?thesis by blast
qed

theorem AtLeastOne_stale_account_credited_witness:
  "\<exists>subs. AtLeastOneRealmSuccessfulStrategy_execute AtLeastOneRealmSuccessfulStrategy_new
            \<lparr>authentication_token = alice_token,
             attempt_realms =
               [stub_realm ''R1'' [UsernamePasswordToken] (Inr (Some (password_account []))) False,
                stub_realm ''R2'' [UsernamePasswordToken]
                  (Inl (AccountException ''no account'')) False]\<rparr> =
            Inr (Some (CompositeAccount subs))
          \<and> map_of subs ''R2'' = Some (password_account [])"
proof -
  let ?q = "stub_realm ''R1'' [UsernamePasswordToken] (Inr (Some (password_account []))) False"
  let ?r = "stub_realm ''R2'' [UsernamePasswordToken] (Inl (AccountException ''no account'')) False"
  let ?att = "\<lparr>authentication_token = alice_token, attempt_realms = [?q, ?r]\<rparr>"
  have split: "attempt_realms ?att = [] @ ?q # [] @ ?r # []" by simp
  have q: "supports ?q (authentication_token ?att)"
          "authenticate_account ?q (authentication_token ?att) = Inr (Some (password_account []))"
    by (simp_all add: stub_realm_def alice_token_def)
  have mid: "\<forall>m \<in> set []. supports m (authentication_token ?att)
               \<longrightarrow> isl (authenticate_account m (authentication_token ?att))"
    by simp
  have r: "supports ?r (authentication_token ?att)"
          "authenticate_account ?r (authentication_token ?att) =
             Inl (AccountException ''no account'')"
    by (simp_all add: stub_realm_def alice_token_def)
  have names: "distinct (map name (attempt_realms ?att))"
    by (simp add: stub_realm_def)
  have "name ?r = ''R2''" by (simp add: stub_realm_def)
  with AtLeastOne_stale_account_credited
         [OF split q mid r names, of AtLeastOneRealmSuccessfulStrategy_new]
  show ?thesis by simp
qed

section \<open>FirstRealmSuccessfulStrategy\<close>

lemma FirstRealmSuccessful_loop_returns:
  assumes "\<forall>q \<in> set pre. supports q tok \<longrightarrow> (\<forall>b. authenticate_account q tok \<noteq> Inr (Some b))"
    and "supports r tok" and "authenticate_account r tok = Inr (Some a)"
  shows "FirstRealmSuccessful_loop tok (pre @ r # post) errs =
           (Returned a, map name (filter (\<lambda>q. supports q tok) pre) @ [name r])"
  using assms(1)
proof (induction pre arbitrary: errs)
  case Nil
  from assms(2,3) show ?case by simp
next
  case (Cons q pre)
  then have IH: "\<And>errs. FirstRealmSuccessful_loop tok (pre @ r # post) errs =
           (Returned a, map name (filter (\<lambda>q. supports q tok) pre) @ [name r])"
    by simp
  show ?case
  proof (cases "supports q tok")
    case False
    then show ?thesis by (simp add: IH)
  next
    case True
    with Cons.prems have ns: "\<forall>b. authenticate_account q tok \<noteq> Inr (Some b)" by simp
    show ?thesis
    proof (cases "authenticate_account q tok")
      case (Inl ex)
      with True show ?thesis by (simp add: IH)
    next
      case (Inr v)
      with ns have "authenticate_account q tok = Inr None" by (cases v) simp_all
      with True show ?thesis by (simp add: IH)
    qed
  qed
qed

lemma FirstRealmSuccessful_loop_exhausted:
  assumes "\<forall>q \<in> set rs. supports q tok \<longrightarrow> (\<forall>b. authenticate_account q tok \<noteq> Inr (Some b))"
    and "distinct (map name rs)"
    and "fst ` set errs \<inter> name ` set rs = {}"
  shows "FirstRealmSuccessful_loop tok rs errs =
           (Exhausted
              (errs @ map (\<lambda>q. (name q, projl (authenticate_account q tok)))
                        (filter (\<lambda>q. supports q tok \<and> isl (authenticate_account q tok)) rs)),
            map name (filter (\<lambda>q. supports q tok) rs))"
  using assms
proof (induction rs arbitrary: errs)
  case Nil
  then show ?case by simp
next
  case (Cons r rs)
  from Cons.prems have
    ns: "\<forall>q \<in> set rs. supports q tok \<longrightarrow> (\<forall>b. authenticate_account q tok \<noteq> Inr (Some b))"
    and d: "distinct (map name rs)"
    and fresh: "name r \<notin> fst ` set errs"
    and r_new: "name r \<notin> name ` set rs"
    and disj: "fst ` set errs \<inter> name ` set rs = {}"
    by auto
  show ?case
  proof (cases "supports r tok")
    case False
    with Cons.IH [OF ns d disj] show ?thesis by simp
  next
    case True
    with Cons.prems have nsr: "\<forall>b. authenticate_account r tok \<noteq> Inr (Some b)" by simp
    show ?thesis
    proof (cases "authenticate_account r tok")
      case (Inl ex)
      from disj r_new have "fst ` set (errs @ [(name r, ex)]) \<inter> name ` set rs = {}" by auto
      from Cons.IH [OF ns d this] True Inl fresh show ?thesis
        by (simp add: update_fresh_key)
    next
      case (Inr v)
      with nsr have "authenticate_account r tok = Inr None" by (cases v) simp_all
      with Cons.IH [OF ns d disj] True show ?thesis by simp
    qed
  qed
qed

text \<open>
  C5. \<open>FirstRealmSuccessfulStrategy.execute\<close> returns the first supporting
  realm's non-null account in iteration order without consulting later realms;
  when the loop ends without a success it returns null if no realm raised,
  re-raises the sole exception if it is of authentication kind and otherwise
  wraps it in an \<open>Authentication\<close> exception with the message
  \<open>Unable to authenticate realm account\<close> and the inner exception, and raises
  \<open>MultiRealmAuthentication\<close> with the per-realm error map when more than one
  realm raised.
  The message in the code ends with a full stop. One realm raises an exception
  that is not of authentication kind:
\<close>

theorem FirstRealmSuccessful_message_counterexample:
  "fst (FirstRealmSuccessfulStrategy_execute
          \<lparr>authentication_token = alice_token,
           attempt_realms =
             [stub_realm ''R1'' [UsernamePasswordToken] (Inl (OtherException ''boom'')) False]\<rparr>) =
     Inl (AuthenticationException ''Unable to authenticate realm account.''
            (Some (OtherException ''boom'')))
   \<and> fst (FirstRealmSuccessfulStrategy_execute
          \<lparr>authentication_token = alice_token,
           attempt_realms =
             [stub_realm ''R1'' [UsernamePasswordToken] (Inl (OtherException ''boom'')) False]\<rparr>) \<noteq>
     Inl (AuthenticationException ''Unable to authenticate realm account''
            (Some (OtherException ''boom'')))"
  by (simp add: FirstRealmSuccessfulStrategy_execute_def stub_realm_def alice_token_def)

text \<open>
  C5, as the code has it, for every attempt. If a supporting realm returns a
  non-null account and no supporting realm before it does, the strategy returns
  that account, and the realms called are the supporting realms up to and
  including that one. If no supporting realm returns a non-null account (realm
  names being unique), every supporting realm has been called and the outcome
  follows the realms that raised: none, null is returned; exactly one, its
  exception is re-raised if of authentication kind and otherwise wrapped in an
  \<open>Authentication\<close> exception with the message
  \<open>Unable to authenticate realm account.\<close> and the inner exception; more than
  one, \<open>MultiRealmAuthentication\<close> is raised with the errors by realm name, in
  iteration order.
\<close>

theorem FirstRealmSuccessfulStrategy_execute_outcome:
  "(attempt_realms att = pre @ r # post
      \<and> (\<forall>q \<in> set pre. supports q (authentication_token att)
            \<longrightarrow> (\<forall>b. authenticate_account q (authentication_token att) \<noteq> Inr (Some b)))
      \<and> supports r (authentication_token att)
      \<and> authenticate_account r (authentication_token att) = Inr (Some a)
    \<longrightarrow> FirstRealmSuccessfulStrategy_execute att =
          (Inr (Some a),
           map name (filter (\<lambda>q. supports q (authentication_token att)) pre) @ [name r]))
   \<and> ((\<forall>q \<in> set (attempt_realms att). supports q (authentication_token att)
            \<longrightarrow> (\<forall>b. authenticate_account q (authentication_token att) \<noteq> Inr (Some b)))
      \<and> distinct (map name (attempt_realms att))
    \<longrightarrow> FirstRealmSuccessfulStrategy_execute att =
          (case map (\<lambda>q. (name q, projl (authenticate_account q (authentication_token att))))
                  (filter (\<lambda>q. supports q (authentication_token att)
                               \<and> isl (authenticate_account q (authentication_token att)))
                     (attempt_realms att)) of
             [] \<Rightarrow> Inr None
           | [(n, exc)] \<Rightarrow>
               if isinstance_AuthenticationException exc then Inl exc
               else Inl (AuthenticationException ''Unable to authenticate realm account.''
                           (Some exc))
           | errs \<Rightarrow> Inl (MultiRealmAuthenticationException errs),
           map name (filter (\<lambda>q. supports q (authentication_token att)) (attempt_realms att))))"
  (is "(?A \<longrightarrow> ?B) \<and> (?C \<longrightarrow> ?D)")
proof (intro conjI impI)
  assume ?A
  then have "FirstRealmSuccessful_loop (authentication_token att) (attempt_realms att) [] =
               (Returned a,
                map name (filter (\<lambda>q. supports q (authentication_token att)) pre) @ [name r])"
    using FirstRealmSuccessful_loop_returns [of pre "authentication_token att" r a post "[]"] by simp
  then show ?B by (simp add: FirstRealmSuccessfulStrategy_execute_def)
next
  assume c: ?C
  let ?raised = "map (\<lambda>q. (name q, projl (authenticate_account q (authentication_token att))))
                  (filter (\<lambda>q. supports q (authentication_token att)
                               \<and> isl (authenticate_account q (authentication_token att)))
                     (attempt_realms att))"
  from c have "FirstRealmSuccessful_loop (authentication_token att) (attempt_realms att) [] =
           (Exhausted ([] @ ?raised),
            map name (filter (\<lambda>q. supports q (authentication_token att)) (attempt_realms att)))"
    by (intro FirstRealmSuccessful_loop_exhausted) simp_all
  then have l: "FirstRealmSuccessful_loop (authentication_token att) (attempt_realms att) [] =
           (Exhausted ?raised,
            map name (filter (\<lambda>q. supports q (authentication_token att)) (attempt_realms att)))"
    by simp
  show ?D
  proof (cases ?raised)
    case Nil
    with l show ?thesis by (simp add: FirstRealmSuccessfulStrategy_execute_def)
  next
    case (Cons e es)
    obtain n exc where e: "e = (n, exc)" by (cases e)
    show ?thesis
    proof (cases es)
      case Nil
      with l Cons e show ?thesis
        by (simp add: FirstRealmSuccessfulStrategy_execute_def)
    next
      case (Cons e' es')
      with l \<open>?raised = e # es\<close> e show ?thesis
        by (simp add: FirstRealmSuccessfulStrategy_execute_def)
    qed
  qed
qed

theorem FirstRealmSuccessfulStrategy_execute_outcome_witness:
  "FirstRealmSuccessfulStrategy_execute
     \<lparr>authentication_token = alice_token,
      attempt_realms =
        [stub_realm ''R1'' [UsernamePasswordToken]
           (Inl (IncorrectCredentialsException (Some [1]))) False,
         stub_realm ''R2'' [UsernamePasswordToken] (Inr (Some (password_account []))) False,
         stub_realm ''R3'' [UsernamePasswordToken] (Inr (Some (mfa_account []))) False]\<rparr> =
     (Inr (Some (password_account [])), [''R1'', ''R2''])
   \<and> FirstRealmSuccessfulStrategy_execute
     \<lparr>authentication_token = alice_token,
      attempt_realms =
        [stub_realm ''R1'' [UsernamePasswordToken]
           (Inl (IncorrectCredentialsException (Some [1]))) False,
         stub_realm ''R2'' [UsernamePasswordToken] (Inl (AccountException ''no account'')) False]\<rparr> =
     (Inl (MultiRealmAuthenticationException
            [(''R1'', IncorrectCredentialsException (Some [1])),
             (''R2'', AccountException ''no account'')]),
      [''R1'', ''R2''])
   \<and> FirstRealmSuccessfulStrategy_execute
     \<lparr>authentication_token = alice_token,
      attempt_realms =
        [stub_realm ''R1'' [UsernamePasswordToken]
           (Inl (IncorrectCredentialsException (Some [1]))) False,
         stub_realm ''R2'' [TOTPToken] (Inl (AccountException ''no account'')) False]\<rparr> =
     (Inl (IncorrectCredentialsException (Some [1])), [''R1''])
   \<and> FirstRealmSuccessfulStrategy_execute
     \<lparr>authentication_token = alice_token,
      attempt_realms =
        [stub_realm ''R1'' [UsernamePasswordToken] (Inl (OtherException ''boom'')) False]\<rparr> =
     (Inl (AuthenticationException ''Unable to authenticate realm account.''
             (Some (OtherException ''boom''))),
      [''R1''])
   \<and> FirstRealmSuccessfulStrategy_execute
     \<lparr>authentication_token = alice_token,
      attempt_realms =
        [stub_realm ''R1'' [UsernamePasswordToken] (Inr None) False]\<rparr> =
     (Inr None, [''R1''])"
proof (intro conjI)
  let ?r1 = "stub_realm ''R1'' [UsernamePasswordToken]
               (Inl (IncorrectCredentialsException (Some [1]))) False"
  let ?r2 = "stub_realm ''R2'' [UsernamePasswordToken] (Inr (Some (password_account []))) False"
  let ?r3 = "stub_realm ''R3'' [UsernamePasswordToken] (Inr (Some (mfa_account []))) False"
  let ?e2 = "stub_realm ''R2'' [UsernamePasswordToken] (Inl (AccountException ''no account'')) False"
  let ?t2 = "stub_realm ''R2'' [TOTPToken] (Inl (AccountException ''no account'')) False"
  let ?n1 = "stub_realm ''R1'' [UsernamePasswordToken] (Inr None) False"
  let ?o1 = "stub_realm ''R1'' [UsernamePasswordToken] (Inl (OtherException ''boom'')) False"
  show "FirstRealmSuccessfulStrategy_execute
          \<lparr>authentication_token = alice_token, attempt_realms = [?r1, ?r2, ?r3]\<rparr> =
          (Inr (Some (password_account [])), [''R1'', ''R2''])"
    using FirstRealmSuccessfulStrategy_execute_outcome
            [of "\<lparr>authentication_token = alice_token, attempt_realms = [?r1, ?r2, ?r3]\<rparr>"
                "[?r1]" ?r2 "[?r3]" "password_account []", THEN conjunct1]
    by (simp add: stub_realm_def alice_token_def)
  show "FirstRealmSuccessfulStrategy_execute
          \<lparr>authentication_token = alice_token, attempt_realms = [?r1, ?e2]\<rparr> =
          (Inl (MultiRealmAuthenticationException
                 [(''R1'', IncorrectCredentialsException (Some [1])),
                  (''R2'', AccountException ''no account'')]),
           [''R1'', ''R2''])"
    using FirstRealmSuccessfulStrategy_execute_outcome
            [of "\<lparr>authentication_token = alice_token, attempt_realms = [?r1, ?e2]\<rparr>",
             THEN conjunct2]
    by (simp add: stub_realm_def alice_token_def)
  show "FirstRealmSuccessfulStrategy_execute
          \<lparr>authentication_token = alice_token, attempt_realms = [?r1, ?t2]\<rparr> =
          (Inl (IncorrectCredentialsException (Some [1])), [''R1''])"
    using FirstRealmSuccessfulStrategy_execute_outcome
            [of "\<lparr>authentication_token = alice_token, attempt_realms = [?r1, ?t2]\<rparr>",
             THEN conjunct2]
    by (simp add: stub_realm_def alice_token_def)
  show "FirstRealmSuccessfulStrategy_execute
          \<lparr>authentication_token = alice_token, attempt_realms = [?o1]\<rparr> =
          (Inl (AuthenticationException ''Unable to authenticate realm account.''
                  (Some (OtherException ''boom''))),
           [''R1''])"
    using FirstRealmSuccessfulStrategy_execute_outcome
            [of "\<lparr>authentication_token = alice_token, attempt_realms = [?o1]\<rparr>",
             THEN conjunct2]
    by (simp add: stub_realm_def alice_token_def)
  show "FirstRealmSuccessfulStrategy_execute
          \<lparr>authentication_token = alice_token, attempt_realms = [?n1]\<rparr> =
          (Inr None, [''R1''])"
    using FirstRealmSuccessfulStrategy_execute_outcome
            [of "\<lparr>authentication_token = alice_token, attempt_realms = [?n1]\<rparr>",
             THEN conjunct2]
    by (simp add: stub_realm_def alice_token_def)
qed

end
